theory Spec2Isabelle
  imports Complex_Main
begin

section \<open>JavaScript numbers\<close>

text \<open>
  A JavaScript number is NaN, one of the two infinities, or a finite value. Finite
  values are modelled as exact reals: rounding to binary64, overflow of a finite
  operation and the sign of zero are not modelled.
\<close>

datatype jsnum = NaN | PInf | NInf | Fin real

fun js_neg :: "jsnum \<Rightarrow> jsnum" where
  "js_neg NaN = NaN"
| "js_neg PInf = NInf"
| "js_neg NInf = PInf"
| "js_neg (Fin a) = Fin (- a)"

fun js_add :: "jsnum \<Rightarrow> jsnum \<Rightarrow> jsnum" where
  "js_add NaN _ = NaN"
| "js_add _ NaN = NaN"
| "js_add PInf NInf = NaN"
| "js_add NInf PInf = NaN"
| "js_add PInf _ = PInf"
| "js_add _ PInf = PInf"
| "js_add NInf _ = NInf"
| "js_add _ NInf = NInf"
| "js_add (Fin a) (Fin b) = Fin (a + b)"

definition js_sub :: "jsnum \<Rightarrow> jsnum \<Rightarrow> jsnum" where
  "js_sub a b = js_add a (js_neg b)"

text \<open>The sign of a number that is not NaN: \<open>-1\<close>, \<open>0\<close> or \<open>1\<close>.\<close>

fun js_sgn :: "jsnum \<Rightarrow> real" where
  "js_sgn NaN = 0"
| "js_sgn PInf = 1"
| "js_sgn NInf = - 1"
| "js_sgn (Fin a) = sgn a"

definition inf_of_sign :: "real \<Rightarrow> jsnum" where
  "inf_of_sign s = (if s = 0 then NaN else if 0 < s then PInf else NInf)"

fun js_mul :: "jsnum \<Rightarrow> jsnum \<Rightarrow> jsnum" where
  "js_mul NaN _ = NaN"
| "js_mul _ NaN = NaN"
| "js_mul (Fin a) (Fin b) = Fin (a * b)"
| "js_mul a b = inf_of_sign (js_sgn a * js_sgn b)"

text \<open>
  Division: a finite non-zero value over zero is an infinity (of the dividend's sign,
  the divisor being read as \<open>+0\<close>), zero over zero is NaN, a finite value over an
  infinity is zero.
\<close>

fun js_div :: "jsnum \<Rightarrow> jsnum \<Rightarrow> jsnum" where
  "js_div NaN _ = NaN"
| "js_div _ NaN = NaN"
| "js_div (Fin a) (Fin b) = (if b = 0 then inf_of_sign (sgn a) else Fin (a / b))"
| "js_div (Fin a) _ = Fin 0"
| "js_div a (Fin b) = inf_of_sign (js_sgn a * (if b < 0 then - 1 else 1))"
| "js_div _ _ = NaN"

text \<open>Comparisons are false as soon as one side is NaN.\<close>

fun js_lt :: "jsnum \<Rightarrow> jsnum \<Rightarrow> bool" where
  "js_lt NaN _ = False"
| "js_lt _ NaN = False"
| "js_lt (Fin a) (Fin b) = (a < b)"
| "js_lt NInf b = (b \<noteq> NInf)"
| "js_lt a PInf = (a \<noteq> PInf)"
| "js_lt _ _ = False"

definition js_gt :: "jsnum \<Rightarrow> jsnum \<Rightarrow> bool" where
  "js_gt a b = js_lt b a"

definition js_le :: "jsnum \<Rightarrow> jsnum \<Rightarrow> bool" where
  "js_le a b = (a \<noteq> NaN \<and> b \<noteq> NaN \<and> \<not> js_lt b a)"

definition js_ge :: "jsnum \<Rightarrow> jsnum \<Rightarrow> bool" where
  "js_ge a b = js_le b a"

definition isNaN :: "jsnum \<Rightarrow> bool" where
  "isNaN a = (a = NaN)"

fun is_finite :: "jsnum \<Rightarrow> bool" where
  "is_finite (Fin r) = True"
| "is_finite _ = False"

text \<open>\<open>Math.max\<close> of two arguments: NaN as soon as one of them is NaN.\<close>

definition Math_max :: "jsnum \<Rightarrow> jsnum \<Rightarrow> jsnum" where
  "Math_max a b = (if a = NaN \<or> b = NaN then NaN else if js_lt a b then b else a)"

section \<open>JavaScript values and string conversions\<close>

text \<open>
  The values a field of a fetched record can hold: absent (\<open>undefined\<close>), \<open>null\<close>,
  a boolean, a number or a string. Strings are lists of 8-bit characters.
\<close>

datatype jsval = JUndefined | JNull | JBool bool | JNum jsnum | JStr string

fun truthy :: "jsval \<Rightarrow> bool" where
  "truthy JUndefined = False"
| "truthy JNull = False"
| "truthy (JBool b) = b"
| "truthy (JNum n) = (n \<noteq> NaN \<and> n \<noteq> Fin 0)"
| "truthy (JStr s) = (s \<noteq> [])"

text \<open>White space and line terminators (tab, LF, VT, FF, CR, space, NBSP).\<close>

definition is_ws :: "char \<Rightarrow> bool" where
  "is_ws c = (of_char c \<in> {9 :: nat, 10, 11, 12, 13, 32, 160})"

definition js_trim :: "string \<Rightarrow> string" where
  "js_trim s = rev (dropWhile is_ws (rev (dropWhile is_ws s)))"

definition is_digit :: "char \<Rightarrow> bool" where
  "is_digit c = (c \<in> set ''0123456789'')"

definition digit_val :: "char \<Rightarrow> nat" where
  "digit_val c = of_char c - 48"

text \<open>The value of a digit string in a radix, most significant digit first.\<close>

definition radix_val :: "nat \<Rightarrow> (char \<Rightarrow> nat) \<Rightarrow> string \<Rightarrow> nat" where
  "radix_val b dv ds = foldl (\<lambda>acc c. b * acc + dv c) 0 ds"

definition digits_val :: "string \<Rightarrow> nat" where
  "digits_val ds = radix_val 10 digit_val ds"

text \<open>
  A decimal literal beyond the largest binary64 value is read as an infinity; below
  that bound the value is kept exact.
\<close>

definition of_literal :: "real \<Rightarrow> jsnum" where
  "of_literal r = (if 2 ^ 1024 - 2 ^ 970 \<le> r then PInf else Fin r)"

text \<open>
  \<open>parseInt(string, 10)\<close>: leading white space is skipped, one sign is read, then the
  longest run of decimal digits; no digit gives NaN.
\<close>

definition parseInt10 :: "string \<Rightarrow> jsnum" where
  "parseInt10 inputString =
     (let S = dropWhile is_ws inputString;
          neg = (case S of [] \<Rightarrow> False | c # cs \<Rightarrow> c = CHR ''-'');
          S' = (case S of [] \<Rightarrow> []
                | c # cs \<Rightarrow> if c = CHR ''+'' \<or> c = CHR ''-'' then cs else S);
          Z = takeWhile is_digit S'
      in if Z = [] then NaN
         else if neg then js_neg (of_literal (of_nat (digits_val Z)))
         else of_literal (of_nat (digits_val Z)))"

text \<open>
  The exponent part of a decimal literal: \<open>e\<close> or \<open>E\<close>, an optional sign and at least
  one digit. Returns the exponent and the rest; without a complete exponent part nothing
  is consumed.
\<close>

definition scan_exponent :: "string \<Rightarrow> int \<times> string" where
  "scan_exponent s =
     (case s of [] \<Rightarrow> (0, s)
      | c # cs \<Rightarrow>
          if c = CHR ''e'' \<or> c = CHR ''E'' then
            (let sg = (case cs of [] \<Rightarrow> False | d # ds \<Rightarrow> d = CHR ''-'');
                 ds = (case cs of [] \<Rightarrow> []
                       | d # ds \<Rightarrow> if d = CHR ''+'' \<or> d = CHR ''-'' then ds else cs);
                 ed = takeWhile is_digit ds
             in if ed = [] then (0, s)
                else (if sg then - int (digits_val ed) else int (digits_val ed),
                      dropWhile is_digit ds))
          else (0, s))"

definition scale10 :: "real \<Rightarrow> int \<Rightarrow> real" where
  "scale10 m e = (if 0 \<le> e then m * 10 ^ nat e else m / 10 ^ nat (- e))"

text \<open>
  The longest prefix that is an unsigned decimal literal (\<open>Infinity\<close>, digits with an
  optional fraction and exponent, or a fraction that starts with the dot), with its
  value and the rest of the string; \<open>None\<close> when there is no such prefix.
\<close>

definition scan_unsigned :: "string \<Rightarrow> (jsnum \<times> string) option" where
  "scan_unsigned s =
     (if take 8 s = ''Infinity'' then Some (PInf, drop 8 s)
      else
        (let ip = takeWhile is_digit s;
             r1 = dropWhile is_digit s;
             dot = (case r1 of [] \<Rightarrow> False
                    | c # cs \<Rightarrow> c = CHR ''.'' \<and>
                        (ip \<noteq> [] \<or> (case cs of [] \<Rightarrow> False | d # ds \<Rightarrow> is_digit d)));
             fp = (if dot then takeWhile is_digit (tl r1) else []);
             r2 = (if dot then dropWhile is_digit (tl r1) else r1)
         in if ip = [] \<and> fp = [] then None
            else (case scan_exponent r2 of
                    (e, r3) \<Rightarrow>
                      Some (of_literal
                              (scale10 (of_nat (digits_val ip)
                                + of_nat (digits_val fp) / 10 ^ length fp) e), r3))))"

text \<open>The same with an optional sign in front.\<close>

definition scan_decimal :: "string \<Rightarrow> (jsnum \<times> string) option" where
  "scan_decimal s =
     (case s of [] \<Rightarrow> None
      | c # cs \<Rightarrow>
          if c = CHR ''-'' then map_option (\<lambda>(v, r). (js_neg v, r)) (scan_unsigned cs)
          else if c = CHR ''+'' then scan_unsigned cs
          else scan_unsigned s)"

text \<open>\<open>parseFloat\<close>: the longest decimal literal after the leading white space.\<close>

definition parseFloat_str :: "string \<Rightarrow> jsnum" where
  "parseFloat_str s =
     (case scan_decimal (dropWhile is_ws s) of None \<Rightarrow> NaN | Some (v, r) \<Rightarrow> v)"

text \<open>Hexadecimal, octal and binary integer literals (\<open>0x1f\<close>, \<open>0o17\<close>, \<open>0b101\<close>).\<close>

definition hex_val :: "char \<Rightarrow> nat" where
  "hex_val c =
     (if is_digit c then digit_val c
      else if c \<in> set ''abcdef'' then of_char c - 87
      else of_char c - 55)"

definition nondecimal_literal :: "string \<Rightarrow> jsnum option" where
  "nondecimal_literal s =
     (case s of
        z # p # ds \<Rightarrow>
          if z \<noteq> CHR ''0'' \<or> ds = [] then None
          else if p \<in> set ''xX'' \<and> list_all (\<lambda>c. c \<in> set ''0123456789abcdefABCDEF'') ds
            then Some (of_literal (of_nat (radix_val 16 hex_val ds)))
          else if p \<in> set ''oO'' \<and> list_all (\<lambda>c. c \<in> set ''01234567'') ds
            then Some (of_literal (of_nat (radix_val 8 digit_val ds)))
          else if p \<in> set ''bB'' \<and> list_all (\<lambda>c. c \<in> set ''01'') ds
            then Some (of_literal (of_nat (radix_val 2 digit_val ds)))
          else None
      | _ \<Rightarrow> None)"

text \<open>
  The conversion of a string to a number: the trimmed string is empty (zero), a
  non-decimal integer literal, or a decimal literal that takes the whole string;
  anything else is NaN.
\<close>

definition StringToNumber :: "string \<Rightarrow> jsnum" where
  "StringToNumber s =
     (let t = js_trim s
      in if t = [] then Fin 0
         else (case nondecimal_literal t of
                 Some v \<Rightarrow> v
               | None \<Rightarrow>
                   (case scan_decimal t of
                      Some (v, []) \<Rightarrow> v
                    | _ \<Rightarrow> NaN)))"

text \<open>\<open>Number(value)\<close>.\<close>

fun Number :: "jsval \<Rightarrow> jsnum" where
  "Number JUndefined = NaN"
| "Number JNull = Fin 0"
| "Number (JBool b) = (if b then Fin 1 else Fin 0)"
| "Number (JNum n) = n"
| "Number (JStr s) = StringToNumber s"

text \<open>
  \<open>Number.prototype.toString\<close> on an integer-valued number below \<open>10^21\<close>: the
  decimal digits, with a leading minus sign for a negative value.
\<close>

definition digit_char :: "nat \<Rightarrow> char" where
  "digit_char d = ''0123456789'' ! d"

fun nat_digits :: "nat \<Rightarrow> string" where
  "nat_digits n =
     (if n < 10 then [digit_char n] else nat_digits (n div 10) @ [digit_char (n mod 10)])"

declare nat_digits.simps [simp del]

definition int_toString :: "int \<Rightarrow> string" where
  "int_toString i =
     (if i < 0 then CHR ''-'' # nat_digits (nat (- i)) else nat_digits (nat i))"

text \<open>
  \<open>String(value)\<close>. The digits of a finite number that is not an integer below
  \<open>10^21\<close> come from the runtime's shortest round-trip printing of the binary64 value,
  which exact reals do not determine: that printing is the parameter \<open>fracToString\<close>.
\<close>

definition Number_toString :: "(real \<Rightarrow> string) \<Rightarrow> jsnum \<Rightarrow> string" where
  "Number_toString fracToString n =
     (case n of
        NaN \<Rightarrow> ''NaN''
      | PInf \<Rightarrow> ''Infinity''
      | NInf \<Rightarrow> ''-Infinity''
      | Fin r \<Rightarrow>
          if r \<in> \<int> \<and> \<bar>r\<bar> < 10 ^ 21 then int_toString \<lfloor>r\<rfloor> else fracToString r)"

fun String :: "(real \<Rightarrow> string) \<Rightarrow> jsval \<Rightarrow> string" where
  "String fracToString JUndefined = ''undefined''"
| "String fracToString JNull = ''null''"
| "String fracToString (JBool b) = (if b then ''true'' else ''false'')"
| "String fracToString (JNum n) = Number_toString fracToString n"
| "String fracToString (JStr s) = s"

section \<open>The coordinate mapper\<close>

definition STATUS_HEIGHT :: jsnum where
  "STATUS_HEIGHT = Fin 12500"

definition STATUS_WIDTH :: jsnum where
  "STATUS_WIDTH = Fin 1600"

definition getYearPosition :: "jsnum \<Rightarrow> jsnum" where
  "getYearPosition year =
     js_mul (js_div (js_sub (Fin 2200) year) (js_sub (Fin 2200) (Fin 1400))) STATUS_HEIGHT"

section \<open>Timeline marks\<close>

record timeline_mark =
  mark_x :: jsnum
  mark_y :: jsnum
  mark_label :: string
  mark_event :: string

text \<open>
  The \<open>for\<close> loop of \<open>loadData\<close>: \<open>year\<close> runs from its start value in steps of
  100 while \<open>year <= 2200\<close>, and each round pushes one mark onto \<open>timelineMarks\<close>.
\<close>

function timelineLoop :: "int \<Rightarrow> timeline_mark list \<Rightarrow> timeline_mark list" where
  "timelineLoop year timelineMarks =
     (if year \<le> 2200
      then timelineLoop (year + 100)
             (timelineMarks @
               [\<lparr>mark_x = js_div STATUS_WIDTH (Fin 2),
                 mark_y = getYearPosition (Fin (of_int year)),
                 mark_label = int_toString year,
                 mark_event = []\<rparr>])
      else timelineMarks)"
  by pat_completeness auto
termination
  by (relation "measure (\<lambda>(year, timelineMarks). nat (2300 - year))") auto

declare timelineLoop.simps [simp del]

definition timelineMarks :: "timeline_mark list" where
  "timelineMarks = timelineLoop 1400 []"

section \<open>The scatter point builder\<close>

text \<open>
  A record of \<open>ocean_stories\<close>, with the fields \<open>loadData\<close> reads; an absent field
  reads as \<open>undefined\<close>.
\<close>

record story_row =
  row_start_year :: jsval
  row_disaster_type :: jsval
  row_country :: jsval
  row_summary :: jsval
  row_total_affected :: jsval
  row_total_injured :: jsval
  row_total_homeless :: jsval
  row_total_deaths :: jsval

definition empty_row :: story_row where
  "empty_row =
     \<lparr>row_start_year = JUndefined, row_disaster_type = JUndefined,
      row_country = JUndefined, row_summary = JUndefined,
      row_total_affected = JUndefined, row_total_injured = JUndefined,
      row_total_homeless = JUndefined, row_total_deaths = JUndefined\<rparr>"

record scatter_point =
  pt_x :: jsnum
  pt_y :: jsval
  pt_disaster_type :: jsval
  pt_country :: jsval
  pt_start_year :: jsval
  pt_summary :: jsval
  pt_total_affected :: jsnum
  pt_total_injured :: jsnum
  pt_total_homeless :: jsnum
  pt_total_deaths :: jsnum

text \<open>
  The function \<open>loadData\<close> maps over the records. \<open>rand1\<close> and \<open>rand2\<close> are the two
  results of \<open>Math.random()\<close>, both in \<open>[0, 1)\<close>.
\<close>

definition storyPoint :: "(real \<Rightarrow> string) \<Rightarrow> real \<Rightarrow> real \<Rightarrow> story_row \<Rightarrow> scatter_point" where
  "storyPoint fracToString rand1 rand2 row =
     (let year = (if truthy (row_start_year row)
                  then JNum (parseInt10 (js_trim (String fracToString (row_start_year row))))
                  else JNull)
      in \<lparr>pt_x = js_add (js_sub (js_mul (Fin rand1) STATUS_WIDTH) (js_div STATUS_WIDTH (Fin 2)))
                  (js_mul (js_sub (Fin rand2) (Fin 0.5)) (Fin 100)),
          pt_y = (if year \<noteq> JNull then JNum (getYearPosition (Number year)) else JNull),
          pt_disaster_type = row_disaster_type row,
          pt_country = row_country row,
          pt_start_year = year,
          pt_summary = row_summary row,
          pt_total_affected =
            (if truthy (row_total_affected row) then Number (row_total_affected row) else Fin 0),
          pt_total_injured =
            (if truthy (row_total_injured row) then Number (row_total_injured row) else Fin 0),
          pt_total_homeless =
            (if truthy (row_total_homeless row) then Number (row_total_homeless row) else Fin 0),
          pt_total_deaths =
            (if truthy (row_total_deaths row) then Number (row_total_deaths row) else Fin 0)\<rparr>)"

text \<open>The four numeric fields of a record, each with the field of the point it fills.\<close>

definition numeric_fields :: "((story_row \<Rightarrow> jsval) \<times> (scatter_point \<Rightarrow> jsnum)) list" where
  "numeric_fields =
     [(row_total_affected, pt_total_affected), (row_total_injured, pt_total_injured),
      (row_total_homeless, pt_total_homeless), (row_total_deaths, pt_total_deaths)]"

section \<open>The star loader\<close>

record star_config =
  maxMagnitude :: jsnum
  minMagnitude :: jsnum
  maxStarSize :: jsnum
  minStarSize :: jsnum
  baseStarSize :: jsnum
  brightestThreshold :: jsnum
  brightThreshold :: jsnum
  brightestStarColor :: nat
  brightStarColor :: nat
  fadeFactor :: jsnum

definition starConfig :: star_config where
  "starConfig =
     \<lparr>maxMagnitude = Fin 6.7, minMagnitude = Fin (- 1.5), maxStarSize = Fin 16.9,
      minStarSize = Fin 3.0, baseStarSize = Fin 4.5, brightestThreshold = Fin 4.5,
      brightThreshold = Fin 2.5, brightestStarColor = 0xffffff,
      brightStarColor = 0xe6f0ff, fadeFactor = Fin 2.0\<rparr>"

definition radius :: jsnum where
  "radius = Fin 200"

definition Math_PI :: jsnum where
  "Math_PI = Fin pi"

text \<open>Cosine and sine of an infinity or of NaN are NaN.\<close>

fun Math_cos :: "jsnum \<Rightarrow> jsnum" where
  "Math_cos (Fin a) = Fin (cos a)"
| "Math_cos _ = NaN"

fun Math_sin :: "jsnum \<Rightarrow> jsnum" where
  "Math_sin (Fin a) = Fin (sin a)"
| "Math_sin _ = NaN"

text \<open>
  \<open>Math.pow\<close> with a finite base in \<open>(0, 1)\<close>, which is how the source calls it: a NaN
  exponent gives NaN, \<open>+Infinity\<close> gives 0 and \<open>-Infinity\<close> gives \<open>+Infinity\<close>.
\<close>

fun Math_pow :: "real \<Rightarrow> jsnum \<Rightarrow> jsnum" where
  "Math_pow base NaN = NaN"
| "Math_pow base PInf = Fin 0"
| "Math_pow base NInf = PInf"
| "Math_pow base (Fin e) = Fin (base powr e)"

text \<open>
  \<open>THREE.Color\<close> belongs to the rendering library: its constructor from a packed RGB
  number, \<open>multiplyScalar\<close> and \<open>getHex\<close> are parameters of the model.
\<close>

record 'c color_ops =
  newColor :: "nat \<Rightarrow> 'c"
  multiplyScalar :: "'c \<Rightarrow> jsnum \<Rightarrow> 'c"
  getHex :: "'c \<Rightarrow> nat"

text \<open>\<open>rand\<close> is the result of the call of \<open>Math.random()\<close>.\<close>

definition bvToColor :: "'c color_ops \<Rightarrow> real \<Rightarrow> jsnum \<Rightarrow> jsnum \<Rightarrow> nat" where
  "bvToColor ops rand bv brightness =
     (let color =
            (if js_lt brightness (Fin 2.0)
               then multiplyScalar ops (newColor ops 0xffffff) (Fin 1.2)
             else if rand < 0.4
               then multiplyScalar ops (newColor ops 0xffd700) (Fin 1.1)
             else if rand < 0.7
               then multiplyScalar ops (newColor ops 0x87ceeb) (Fin 1.15)
             else multiplyScalar ops (newColor ops 0xf8f8ff) (Fin 1.1));
          fadeFactor = Math_max (Fin 0.2) (js_sub (Fin 1) (js_div brightness (maxMagnitude starConfig)))
      in getHex ops (multiplyScalar ops color (js_add (js_mul fadeFactor (Fin 0.85)) (Fin 0.25))))"

text \<open>
  \<open>String.prototype.split\<close> with a one-character separator: the pieces between the
  separators, one piece more than there are separators.
\<close>

fun split_on :: "char \<Rightarrow> string \<Rightarrow> string list" where
  "split_on sep [] = [[]]"
| "split_on sep (c # cs) =
     (if c = sep then [] # split_on sep cs
      else (case split_on sep cs of
              [] \<Rightarrow> [[c]]
            | w # ws \<Rightarrow> (c # w) # ws))"

text \<open>An element of an array destructuring: \<open>undefined\<close> beyond the end of the array.\<close>

definition element :: "string list \<Rightarrow> nat \<Rightarrow> string option" where
  "element xs i = (if i < length xs then Some (xs ! i) else None)"

text \<open>
  \<open>parseFloat\<close> of such an element: \<open>undefined\<close> is converted to the string
  "undefined" first.
\<close>

definition parseFloat :: "string option \<Rightarrow> jsnum" where
  "parseFloat v = parseFloat_str (case v of None \<Rightarrow> ''undefined'' | Some s \<Rightarrow> s)"

record star =
  star_id :: nat
  star_x :: jsnum
  star_y :: jsnum
  star_z :: jsnum
  star_brightness :: jsnum
  star_color :: nat
  star_size :: jsnum

text \<open>
  The function \<open>loadStars\<close> maps over the rows; \<open>rand\<close> is the result of the one call
  of \<open>Math.random()\<close> that \<open>bvToColor\<close> makes for this row.
\<close>

definition starOfRow :: "'c color_ops \<Rightarrow> real \<Rightarrow> string \<Rightarrow> nat \<Rightarrow> star" where
  "starOfRow ops rand row index =
     (let cols = split_on CHR '','' row;
          Vmag = element cols 5;
          RAdeg = element cols 8;
          DEdeg = element cols 9;
          B_V = element cols 11;
          brightness = parseFloat Vmag;
          bv = parseFloat B_V;
          x = js_mul (js_mul radius (Math_cos (js_mul (parseFloat RAdeg) (js_div Math_PI (Fin 180)))))
                (Math_cos (js_mul (parseFloat DEdeg) (js_div Math_PI (Fin 180))));
          y = js_mul radius (Math_sin (js_mul (parseFloat DEdeg) (js_div Math_PI (Fin 180))));
          z = js_mul (js_mul radius (Math_sin (js_mul (parseFloat RAdeg) (js_div Math_PI (Fin 180)))))
                (Math_cos (js_mul (parseFloat DEdeg) (js_div Math_PI (Fin 180))));
          size = Math_max
                   (js_mul (minStarSize starConfig)
                      (js_sub (Fin 1.1) (js_div brightness (maxMagnitude starConfig))))
                   (js_mul (maxStarSize starConfig) (Math_pow 0.75 brightness));
          size = (if js_gt brightness (Fin 5.0) then js_mul size (Fin 0.7) else size)
      in \<lparr>star_id = index + 1,
          star_x = x, star_y = y, star_z = z,
          star_brightness = brightness,
          star_color = bvToColor ops rand bv brightness,
          star_size = size\<rparr>)"

text \<open>The predicate of the \<open>filter\<close> call.\<close>

definition keepStar :: "star \<Rightarrow> bool" where
  "keepStar star =
     (\<not> isNaN (star_x star) \<and> \<not> isNaN (star_y star) \<and> \<not> isNaN (star_z star)
      \<and> js_le (star_brightness star) (maxMagnitude starConfig)
      \<and> js_ge (star_brightness star) (minMagnitude starConfig))"

text \<open>
  What can be thrown inside the \<open>try\<close> block of \<open>loadStars\<close>: the promise of \<open>fetch\<close>
  or the promise of \<open>response.text()\<close> is rejected. The outcome of the request is
  either such an error or the text of the file.
\<close>

datatype js_error = FetchRejected | TextRejected

type_synonym fetch_outcome = "js_error + string"

text \<open>
  The body of the \<open>try\<close> block. The \<open>index\<close>-th row (from 0, after the header) gets
  the \<open>index\<close>-th random number \<open>rand index\<close>.
\<close>

definition loadStars_try :: "'c color_ops \<Rightarrow> (nat \<Rightarrow> real) \<Rightarrow> fetch_outcome \<Rightarrow> js_error + star list" where
  "loadStars_try ops rand outcome =
     (case outcome of
        Inl error \<Rightarrow> Inl error
      | Inr text \<Rightarrow>
          (let rows = drop 1 (split_on CHR 0x0A text);
               stars = filter keepStar
                         (map (\<lambda>(index, row). starOfRow ops (rand index) row index)
                            (enumerate 0 rows))
           in Inr stars))"

definition loadStars :: "'c color_ops \<Rightarrow> (nat \<Rightarrow> real) \<Rightarrow> fetch_outcome \<Rightarrow> star list" where
  "loadStars ops rand outcome =
     (case loadStars_try ops rand outcome of
        Inr stars \<Rightarrow> stars
      | Inl error \<Rightarrow> [])"

text \<open>
  The retention rule in the words of the specification, to be compared with
  \<open>keepStar\<close>: the three coordinates are finite and the brightness lies in
  \<open>[-1.5, 6.7]\<close>, both ends included.
\<close>

definition spec_retained :: "star \<Rightarrow> bool" where
  "spec_retained star =
     (is_finite (star_x star) \<and> is_finite (star_y star) \<and> is_finite (star_z star)
      \<and> (case star_brightness star of Fin b \<Rightarrow> - 1.5 \<le> b \<and> b \<le> 6.7 | _ \<Rightarrow> False))"

text \<open>
  The size rule in the words of the specification, with the constants 3.0, 16.9 and
  6.7 written out, to be compared with the size \<open>starOfRow\<close> computes.
\<close>

definition spec_unadjusted_size :: "jsnum \<Rightarrow> jsnum" where
  "spec_unadjusted_size brightness =
     Math_max (js_mul (Fin 3.0) (js_sub (Fin 1.1) (js_div brightness (Fin 6.7))))
       (js_mul (Fin 16.9) (Math_pow 0.75 brightness))"

section \<open>The star globe component\<close>

text \<open>
  The state of one instance of \<open>InteractiveStarGlobe\<close>: its refs (\<open>True\<close> when
  \<open>current\<close> holds an object, \<open>False\<close> when it is \<open>null\<close>), the children of the mount
  element, what is registered with the browser (the resize listener, a requested
  animation frame, the pending load of \<open>init\<close>, the cleanup function the effect
  returned), and counters of the calls made to the collaborators. The point cloud in
  \<open>starPointsRef\<close> is represented by its number of points.
\<close>

datatype dom_node = Canvas | FallbackDiv

record globe =
  mountRef :: bool
  mount_children :: "dom_node list"
  sceneRef :: bool
  cameraRef :: bool
  rendererRef :: bool
  controlsRef :: bool
  starPointsRef :: "nat option"
  resize_listener :: bool
  cleanup_registered :: bool
  load_pending :: bool
  frame_requested :: bool
  loaded_calls :: nat
  render_calls :: nat
  controls_updates :: nat
  resize_calls :: nat
  renderer_disposed :: bool
  controls_disposed :: bool

text \<open>The instance when React runs the effect: the mount element is attached.\<close>

definition initial_globe :: globe where
  "initial_globe =
     \<lparr>mountRef = True, mount_children = [], sceneRef = False, cameraRef = False,
      rendererRef = False, controlsRef = False, starPointsRef = None,
      resize_listener = False, cleanup_registered = False, load_pending = False,
      frame_requested = False, loaded_calls = 0, render_calls = 0,
      controls_updates = 0, resize_calls = 0, renderer_disposed = False,
      controls_disposed = False\<rparr>"

text \<open>
  \<open>if (typeof onStarsLoaded === 'function') onStarsLoaded()\<close>; the flag \<open>cb\<close> says
  whether the prop is a function.
\<close>

definition call_onStarsLoaded :: "bool \<Rightarrow> globe \<Rightarrow> globe" where
  "call_onStarsLoaded cb s = (if cb then s\<lparr>loaded_calls := loaded_calls s + 1\<rparr> else s)"

definition createStarField :: "star list \<Rightarrow> globe \<Rightarrow> globe" where
  "createStarField stars s =
     (if \<not> sceneRef s then s else s\<lparr>starPointsRef := Some (length stars)\<rparr>)"

text \<open>One run of \<open>animate\<close>: it ends by requesting the next frame.\<close>

definition animate :: "globe \<Rightarrow> globe" where
  "animate s =
     (let s1 = (if controlsRef s then s\<lparr>controls_updates := controls_updates s + 1\<rparr> else s);
          s2 = (if rendererRef s1 \<and> sceneRef s1 \<and> cameraRef s1
                then s1\<lparr>render_calls := render_calls s1 + 1\<rparr> else s1)
      in s2\<lparr>frame_requested := True\<rparr>)"

text \<open>\<open>init\<close> up to its \<open>await\<close>, and \<open>init\<close> from the \<open>await\<close> on.\<close>

definition init_start :: "bool \<Rightarrow> globe \<Rightarrow> globe" where
  "init_start cb s =
     (if \<not> rendererRef s then call_onStarsLoaded cb s
      else s\<lparr>load_pending := True\<rparr>)"

definition init_resume :: "bool \<Rightarrow> star list \<Rightarrow> globe \<Rightarrow> globe" where
  "init_resume cb stars s =
     (let s1 = s\<lparr>load_pending := False\<rparr>;
          s2 = (if length stars > 0 then call_onStarsLoaded cb (createStarField stars s1)
                else if cb then call_onStarsLoaded cb s1
                else s1)
      in animate s2)"

text \<open>
  The effect. \<open>renderer_ok\<close> says whether the \<open>try\<close> block that creates the renderer
  and appends its canvas completes, \<open>controls_ok\<close> the same for the controls.
\<close>

definition effect :: "bool \<Rightarrow> bool \<Rightarrow> bool \<Rightarrow> globe \<Rightarrow> globe" where
  "effect renderer_ok controls_ok cb s =
     (if \<not> mountRef s then s
      else
        (let s1 = s\<lparr>sceneRef := True, cameraRef := True\<rparr>
         in if \<not> renderer_ok
            then s1\<lparr>mount_children := mount_children s1 @ [FallbackDiv]\<rparr>
            else
              (let s2 = s1\<lparr>mount_children := mount_children s1 @ [Canvas], rendererRef := True\<rparr>;
                   s3 = s2\<lparr>controlsRef := controls_ok\<rparr>;
                   s4 = init_start cb s3;
                   s5 = s4\<lparr>resize_listener := True\<rparr>
               in s5\<lparr>cleanup_registered := True\<rparr>)))"

definition handleResize :: "globe \<Rightarrow> globe" where
  "handleResize s =
     (if mountRef s \<and> cameraRef s \<and> rendererRef s
      then s\<lparr>resize_calls := resize_calls s + 1\<rparr> else s)"

text \<open>
  The cleanup function. \<open>removeChild\<close> of a node that is not a child throws, and the
  exception is caught: the children stay as they are.
\<close>

definition cleanup :: "globe \<Rightarrow> globe" where
  "cleanup s =
     (let s1 = s\<lparr>resize_listener := False\<rparr>;
          s2 = (if mountRef s1 \<and> rendererRef s1
                then s1\<lparr>mount_children := remove1 Canvas (mount_children s1)\<rparr> else s1);
          s3 = (if rendererRef s2 then s2\<lparr>renderer_disposed := True\<rparr> else s2);
          s4 = (if controlsRef s3 then s3\<lparr>controls_disposed := True\<rparr> else s3)
      in s4)"

text \<open>
  What can happen to a mounted instance: the request of \<open>loadStars\<close> settles, the
  browser runs a requested animation frame, the window is resized, React detaches the
  ref of the mount element, React runs the cleanup function (unmount).
\<close>

datatype event = LoadSettled fetch_outcome | Frame | Resize | DetachRef | Unmount

fun step :: "'c color_ops \<Rightarrow> (nat \<Rightarrow> real) \<Rightarrow> bool \<Rightarrow> event \<Rightarrow> globe \<Rightarrow> globe" where
  "step ops rand cb (LoadSettled outcome) s =
     (if load_pending s then init_resume cb (loadStars ops rand outcome) s else s)"
| "step ops rand cb Frame s =
     (if frame_requested s then animate (s\<lparr>frame_requested := False\<rparr>) else s)"
| "step ops rand cb Resize s = (if resize_listener s then handleResize s else s)"
| "step ops rand cb DetachRef s = s\<lparr>mountRef := False\<rparr>"
| "step ops rand cb Unmount s =
     (if cleanup_registered s then cleanup (s\<lparr>cleanup_registered := False\<rparr>) else s)"

fun run :: "'c color_ops \<Rightarrow> (nat \<Rightarrow> real) \<Rightarrow> bool \<Rightarrow> event list \<Rightarrow> globe \<Rightarrow> globe" where
  "run ops rand cb [] s = s"
| "run ops rand cb (ev # evs) s = run ops rand cb evs (step ops rand cb ev s)"

section \<open>Properties of the coordinate mapper and of the timeline\<close>

lemma getYearPosition_Fin:
  "getYearPosition (Fin r) = Fin ((2200 - r) / (2200 - 1400) * 12500)"
  by (simp add: getYearPosition_def js_sub_def STATUS_HEIGHT_def)

text \<open>
  Claim C6. On an integer year the coordinate mapper computes
  \<open>((2200 - year) / (2200 - 1400)) * 12500\<close>; it is strictly decreasing on the years
  of \<open>[1400, 2200]\<close>, maps 1400 to 12500 and 2200 to 0, and does not clamp: a year
  below 1400 lands above 12500 and a year above 2200 lands below 0.
\<close>

theorem getYearPosition_linear_decreasing:
  fixes y y1 y2 :: int
  shows "getYearPosition (Fin (of_int y)) = Fin ((2200 - of_int y) / (2200 - 1400) * 12500)
    \<and> (1400 \<le> y1 \<and> y1 < y2 \<and> y2 \<le> 2200 \<longrightarrow>
         js_lt (getYearPosition (Fin (of_int y2))) (getYearPosition (Fin (of_int y1))))
    \<and> getYearPosition (Fin 1400) = Fin 12500
    \<and> getYearPosition (Fin 2200) = Fin 0
    \<and> (y < 1400 \<longrightarrow> js_gt (getYearPosition (Fin (of_int y))) (Fin 12500))
    \<and> (2200 < y \<longrightarrow> js_lt (getYearPosition (Fin (of_int y))) (Fin 0))"
proof -
  have mono: "js_lt (getYearPosition (Fin (of_int y2))) (getYearPosition (Fin (of_int y1)))"
    if "y1 < y2"
  proof -
    from that have "(of_int y1 :: real) < of_int y2" by simp
    then show ?thesis by (simp add: getYearPosition_Fin)
  qed
  have above: "js_gt (getYearPosition (Fin (of_int y))) (Fin 12500)" if "y < 1400"
  proof -
    from that have "(of_int y :: real) < 1400" by linarith
    then show ?thesis by (simp add: getYearPosition_Fin js_gt_def)
  qed
  have below: "js_lt (getYearPosition (Fin (of_int y))) (Fin 0)" if "2200 < y"
  proof -
    from that have "(2200 :: real) < of_int y" by linarith
    then show ?thesis by (simp add: getYearPosition_Fin)
  qed
  show ?thesis
    using mono above below by (simp add: getYearPosition_Fin)
qed

theorem getYearPosition_linear_decreasing_witness:
  "getYearPosition (Fin 1850) = Fin 5468.75
    \<and> (1400::int) \<le> 1500 \<and> (1500::int) < 1900 \<and> (1900::int) \<le> 2200
    \<and> js_lt (getYearPosition (Fin 1900)) (getYearPosition (Fin 1500))
    \<and> (1000::int) < 1400 \<and> js_gt (getYearPosition (Fin 1000)) (Fin 12500)
    \<and> (2200::int) < 2300 \<and> js_lt (getYearPosition (Fin 2300)) (Fin 0)"
  using getYearPosition_linear_decreasing [of 1850 1500 1900]
    getYearPosition_linear_decreasing [of 1000 1500 1900]
    getYearPosition_linear_decreasing [of 2300 1500 1900]
  by (simp add: js_gt_def)

text \<open>
  Claim C7. The timeline marks for the bounds 1400 and 2200 with step 100 are exactly
  nine, labelled "1400", "1500", ..., "2200" in this order; all have the same
  horizontal position \<open>STATUS_WIDTH / 2\<close>, and the vertical position of each is
  \<open>getYearPosition\<close> of its year.
\<close>

theorem timelineMarks_nine_centuries:
  "length timelineMarks = 9
    \<and> map mark_label timelineMarks =
        [''1400'', ''1500'', ''1600'', ''1700'', ''1800'', ''1900'', ''2000'', ''2100'', ''2200'']
    \<and> map mark_x timelineMarks = replicate (length timelineMarks) (js_div STATUS_WIDTH (Fin 2))
    \<and> js_div STATUS_WIDTH (Fin 2) = Fin 800
    \<and> map mark_y timelineMarks =
        map (\<lambda>year. getYearPosition (Fin (of_int year)))
          [1400, 1500, 1600, 1700, 1800, 1900, 2000, 2100, 2200]"
  by (simp add: timelineMarks_def timelineLoop.simps int_toString_def nat_digits.simps
      digit_char_def STATUS_WIDTH_def)


section \<open>Decimal numerals: printing and parsing\<close>

lemma digit_cases: "d < 10 \<Longrightarrow> d \<in> {0, 1, 2, 3, 4, 5, 6, 7, 8, 9 :: nat}"
  by auto

lemma is_digit_digit_char: "d < 10 \<Longrightarrow> is_digit (digit_char d)"
  using digit_cases [of d] by (auto simp: is_digit_def digit_char_def)

lemma digit_val_digit_char: "d < 10 \<Longrightarrow> digit_val (digit_char d) = d"
  using digit_cases [of d] by (auto simp: digit_val_def digit_char_def)

lemma nat_digits_not_Nil: "nat_digits n \<noteq> []"
  by (subst nat_digits.simps) simp

lemma nat_digits_all_digits: "list_all is_digit (nat_digits n)"
proof (induction n rule: nat_digits.induct)
  case (1 n)
  show ?case
    by (subst nat_digits.simps) (use 1 in \<open>simp add: is_digit_digit_char\<close>)
qed

lemma radix_val_snoc: "radix_val b dv (ds @ [c]) = b * radix_val b dv ds + dv c"
  by (simp add: radix_val_def)

lemma digits_val_nat_digits: "digits_val (nat_digits n) = n"
proof (induction n rule: nat_digits.induct)
  case (1 n)
  show ?case
  proof (cases "n < 10")
    case True
    then show ?thesis
      by (subst nat_digits.simps) (simp add: digits_val_def radix_val_def digit_val_digit_char)
  next
    case False
    with 1 have "digits_val (nat_digits (n div 10)) = n div 10" by simp
    with False show ?thesis
      by (subst nat_digits.simps)
         (simp add: digits_val_def radix_val_snoc digit_val_digit_char)
  qed
qed

lemma is_digit_not_ws: "is_digit c \<Longrightarrow> \<not> is_ws c"
  by (auto simp: is_digit_def is_ws_def)

lemma is_digit_not_sign: "is_digit c \<Longrightarrow> c \<noteq> CHR ''+'' \<and> c \<noteq> CHR ''-'' \<and> c \<noteq> CHR ''.''"
  by (auto simp: is_digit_def)

lemma takeWhile_digits_append:
  "list_all is_digit ds \<Longrightarrow> takeWhile is_digit rest = [] \<Longrightarrow> takeWhile is_digit (ds @ rest) = ds"
  by (induction ds) auto

lemma of_literal_small: "r < 2 ^ 53 \<Longrightarrow> of_literal r = Fin r"
  by (simp add: of_literal_def)

lemma parseInt10_digits:
  assumes "ds \<noteq> []" "list_all is_digit ds" "takeWhile is_digit rest = []"
  shows "parseInt10 (ds @ rest) = of_literal (of_nat (digits_val ds))"
proof -
  from assms obtain c cs where ds: "ds = c # cs" and c: "is_digit c"
    by (cases ds) auto
  have tw: "takeWhile is_digit (ds @ rest) = ds"
    using assms by (simp add: takeWhile_digits_append)
  show ?thesis
    using c tw assms(1) is_digit_not_ws [OF c] is_digit_not_sign [OF c]
    by (simp add: parseInt10_def ds)
qed

lemma parseInt10_minus_digits:
  assumes "ds \<noteq> []" "list_all is_digit ds" "takeWhile is_digit rest = []"
  shows "parseInt10 (CHR ''-'' # ds @ rest) = js_neg (of_literal (of_nat (digits_val ds)))"
proof -
  have tw: "takeWhile is_digit (ds @ rest) = ds"
    using assms by (simp add: takeWhile_digits_append)
  have "\<not> is_ws CHR ''-''" by (simp add: is_ws_def)
  then show ?thesis
    using tw assms(1) by (simp add: parseInt10_def)
qed

lemma real_nat_bound:
  assumes "0 \<le> m" "m < 2 ^ 53"
  shows "real (nat m) < 2 ^ 53"
proof -
  have "real (nat m) = of_int m" using assms by simp
  moreover have "(of_int m :: real) < of_int (2 ^ 53)"
    using assms by (simp only: of_int_less_iff)
  ultimately show ?thesis by simp
qed

lemma parseInt10_int_toString:
  assumes "\<bar>k\<bar> < 2 ^ 53" "takeWhile is_digit rest = []"
  shows "parseInt10 (int_toString k @ rest) = Fin (of_int k)"
proof (cases "k < 0")
  case True
  with assms(1) have "real (nat (- k)) < 2 ^ 53"
    by (intro real_nat_bound) simp_all
  then show ?thesis
    using True assms(2)
    by (simp add: int_toString_def parseInt10_minus_digits nat_digits_not_Nil
        nat_digits_all_digits digits_val_nat_digits of_literal_small)
next
  case False
  with assms(1) have "real (nat k) < 2 ^ 53"
    by (intro real_nat_bound) simp_all
  then show ?thesis
    using False assms(2)
    by (simp add: int_toString_def parseInt10_digits nat_digits_not_Nil
        nat_digits_all_digits digits_val_nat_digits of_literal_small)
qed

lemma hd_nat_digits: "is_digit (hd (nat_digits n))"
  using nat_digits_all_digits [of n] nat_digits_not_Nil [of n]
  by (cases "nat_digits n") auto

lemma last_nat_digits: "is_digit (last (nat_digits n))"
  using nat_digits_all_digits [of n] nat_digits_not_Nil [of n]
  by (simp add: list_all_iff)

lemma js_trim_no_ws:
  assumes "s \<noteq> []" "\<not> is_ws (hd s)" "\<not> is_ws (last s)"
  shows "js_trim s = s"
proof -
  have "dropWhile is_ws s = s" using assms by (cases s) auto
  moreover have "dropWhile is_ws (rev s) = rev s"
    using assms by (cases "rev s") (auto simp: hd_rev)
  ultimately show ?thesis by (simp add: js_trim_def)
qed

lemma js_trim_int_toString: "js_trim (int_toString k) = int_toString k"
proof (rule js_trim_no_ws)
  show "int_toString k \<noteq> []"
    by (simp add: int_toString_def nat_digits_not_Nil)
  show "\<not> is_ws (hd (int_toString k))"
    using hd_nat_digits [of "nat k"]
    by (auto simp: int_toString_def is_ws_def dest: is_digit_not_ws)
  show "\<not> is_ws (last (int_toString k))"
    using last_nat_digits [of "nat k"] last_nat_digits [of "nat (- k)"]
    by (auto simp: int_toString_def nat_digits_not_Nil dest: is_digit_not_ws)
qed

lemma js_trim_Nil: "js_trim [] = []"
  by (simp add: js_trim_def)

lemma Number_toString_int:
  assumes "\<bar>k\<bar> < 2 ^ 53"
  shows "Number_toString f (Fin (of_int k)) = int_toString k"
proof -
  have "(of_int \<bar>k\<bar> :: real) < of_int (2 ^ 53)"
    using assms by (simp only: of_int_less_iff)
  then have "\<bar>of_int k :: real\<bar> < 10 ^ 21" by simp
  then show ?thesis by (simp add: Number_toString_def)
qed

lemma take8_digits: "s \<noteq> [] \<Longrightarrow> is_digit (hd s) \<Longrightarrow> take 8 s \<noteq> ''Infinity''"
  by (cases s) (auto simp: is_digit_def)

lemma digits_val_Nil: "digits_val [] = 0"
  by (simp add: digits_val_def radix_val_def)

lemma scan_unsigned_digits:
  assumes "ds \<noteq> []" "list_all is_digit ds"
  shows "scan_unsigned ds = Some (of_literal (of_nat (digits_val ds)), [])"
proof -
  have hd: "is_digit (hd ds)" using assms by (cases ds) auto
  have tw: "takeWhile is_digit ds = ds" "dropWhile is_digit ds = []"
    using assms(2) by (simp_all add: list_all_iff)
  show ?thesis
    unfolding scan_unsigned_def Let_def tw
    using take8_digits [OF assms(1) hd] assms(1)
    by (simp add: scan_exponent_def scale10_def digits_val_Nil)
qed

lemma nondecimal_literal_int_toString: "nondecimal_literal (int_toString k) = None"
proof (cases "k < 0")
  case True
  then show ?thesis
    by (cases "nat_digits (nat (- k))")
       (auto simp: nondecimal_literal_def int_toString_def split: list.splits)
next
  case False
  show ?thesis
  proof (cases "nat_digits (nat k)")
    case Nil
    then show ?thesis using nat_digits_not_Nil by simp
  next
    case (Cons z ps)
    show ?thesis
    proof (cases ps)
      case Nil
      with Cons False show ?thesis by (simp add: nondecimal_literal_def int_toString_def)
    next
      case (Cons p qs)
      with \<open>nat_digits (nat k) = z # ps\<close> nat_digits_all_digits [of "nat k"]
      have "is_digit p" by simp
      then have "p \<notin> set ''xX''" "p \<notin> set ''oO''" "p \<notin> set ''bB''"
        by (auto simp: is_digit_def)
      with Cons \<open>nat_digits (nat k) = z # ps\<close> False show ?thesis
        by (simp add: nondecimal_literal_def int_toString_def)
    qed
  qed
qed

lemma StringToNumber_int_toString:
  assumes "\<bar>k\<bar> < 2 ^ 53" "js_trim s = int_toString k"
  shows "StringToNumber s = Fin (of_int k)"
proof -
  have ne: "int_toString k \<noteq> []"
    by (simp add: int_toString_def nat_digits_not_Nil)
  have "scan_decimal (int_toString k) = Some (Fin (of_int k), [])"
  proof (cases "k < 0")
    case True
    with assms(1) have "real (nat (- k)) < 2 ^ 53"
      by (intro real_nat_bound) simp_all
    with True show ?thesis
      by (simp add: scan_decimal_def int_toString_def scan_unsigned_digits
          nat_digits_not_Nil nat_digits_all_digits digits_val_nat_digits of_literal_small)
  next
    case False
    with assms(1) have b: "real (nat k) < 2 ^ 53"
      by (intro real_nat_bound) simp_all
    obtain c cs where cs: "nat_digits (nat k) = c # cs" and c: "is_digit c"
      using nat_digits_not_Nil [of "nat k"] nat_digits_all_digits [of "nat k"]
      by (cases "nat_digits (nat k)") auto
    have "scan_decimal (nat_digits (nat k)) = scan_unsigned (nat_digits (nat k))"
      using is_digit_not_sign [OF c] by (simp add: scan_decimal_def cs)
    with False b show ?thesis
      by (simp add: int_toString_def scan_unsigned_digits
          nat_digits_not_Nil nat_digits_all_digits digits_val_nat_digits of_literal_small)
  qed
  with ne assms(2) show ?thesis
    by (simp add: StringToNumber_def nondecimal_literal_int_toString)
qed


section \<open>Properties of the scatter point builder\<close>

lemma getYearPosition_NaN: "getYearPosition NaN = NaN"
  by (simp add: getYearPosition_def js_sub_def)

lemma storyPoint_year:
  "pt_start_year (storyPoint f r1 r2 row) =
     (if truthy (row_start_year row)
      then JNum (parseInt10 (js_trim (String f (row_start_year row)))) else JNull)"
  by (simp add: storyPoint_def Let_def)

lemma storyPoint_y:
  "pt_y (storyPoint f r1 r2 row) =
     (if truthy (row_start_year row)
      then JNum (getYearPosition (parseInt10 (js_trim (String f (row_start_year row)))))
      else JNull)"
  by (simp add: storyPoint_def Let_def)

lemma real_digits_bound: "n < 2 ^ 53 \<Longrightarrow> real n < 2 ^ 53"
proof -
  assume "n < 2 ^ 53"
  then have "real n < real (2 ^ 53)" by (simp only: of_nat_less_iff)
  then show ?thesis by simp
qed

lemma parseInt10_plus_digits:
  assumes "ds \<noteq> []" "list_all is_digit ds" "takeWhile is_digit rest = []"
  shows "parseInt10 (CHR ''+'' # ds @ rest) = of_literal (of_nat (digits_val ds))"
proof -
  have tw: "takeWhile is_digit (ds @ rest) = ds"
    using assms by (simp add: takeWhile_digits_append)
  have "\<not> is_ws CHR ''+''" by (simp add: is_ws_def)
  then show ?thesis
    using tw assms(1) by (simp add: parseInt10_def)
qed

lemma parseInt10_signed:
  assumes "sign \<in> {[], ''+'', ''-''}" "ds \<noteq> []" "list_all is_digit ds"
    "takeWhile is_digit rest = []" "digits_val ds < 2 ^ 53"
  shows "parseInt10 (sign @ ds @ rest) =
    Fin (if sign = ''-'' then - real (digits_val ds) else real (digits_val ds))"
proof -
  have lit: "of_literal (real (digits_val ds)) = Fin (real (digits_val ds))"
    using assms(5) by (intro of_literal_small real_digits_bound)
  from assms(1) consider "sign = []" | "sign = ''+''" | "sign = ''-''" by auto
  then show ?thesis
  proof cases
    case 1
    then show ?thesis using assms lit by (simp add: parseInt10_digits)
  next
    case 2
    then show ?thesis using assms lit by (simp add: parseInt10_plus_digits)
  next
    case 3
    then show ?thesis using assms lit by (simp add: parseInt10_minus_digits)
  qed
qed

lemma js_trim_decomp:
  "dropWhile is_ws s = js_trim s @ rev (takeWhile is_ws (rev (dropWhile is_ws s)))"
proof -
  let ?u = "dropWhile is_ws s"
  have "rev ?u = takeWhile is_ws (rev ?u) @ dropWhile is_ws (rev ?u)"
    by (simp only: takeWhile_dropWhile_id)
  then have "rev (rev ?u) = rev (takeWhile is_ws (rev ?u) @ dropWhile is_ws (rev ?u))"
    by (rule arg_cong)
  then show ?thesis
    by (simp only: rev_rev_ident rev_append js_trim_def)
qed

lemma js_trim_hd:
  assumes "js_trim s = c # cs"
  shows "\<not> is_ws c"
proof -
  from js_trim_decomp [of s] assms
  have d: "dropWhile is_ws s = c # (cs @ rev (takeWhile is_ws (rev (dropWhile is_ws s))))"
    by (simp only: append_Cons)
  then have "dropWhile is_ws s \<noteq> []" by (metis list.distinct(1))
  then have "\<not> is_ws (hd (dropWhile is_ws s))" by (rule hd_dropWhile)
  moreover have "hd (dropWhile is_ws s) = c" by (subst d) simp
  ultimately show ?thesis by simp
qed

lemma parseInt10_no_digit:
  assumes "case js_trim s of [] \<Rightarrow> True | c # cs \<Rightarrow> \<not> is_digit c \<and> c \<notin> set ''+-''"
  shows "parseInt10 (js_trim s) = NaN"
proof (cases "js_trim s")
  case Nil
  then show ?thesis by (simp add: parseInt10_def)
next
  case (Cons c cs)
  with assms js_trim_hd [OF Cons] show ?thesis
    by (simp add: parseInt10_def)
qed

text \<open>
  Claim C2, as amended. With \<open>P\<close> the point built from a record:
  \<^item> a falsy \<open>start_year\<close> (absent, \<open>null\<close>, \<open>false\<close>, the empty string, the number 0
    or NaN) gives the year \<open>null\<close> and the vertical position \<open>null\<close>;
  \<^item> a truthy \<open>start_year\<close> gives the year \<open>parseInt(String(start_year).trim(), 10)\<close>
    and the vertical position \<open>getYearPosition\<close> of that year;
  \<^item> a string whose trimmed form is an optional sign \<open>+\<close> or \<open>-\<close>, then one or more
    decimal digits of value below \<open>2^53\<close>, then nothing or a character that is not a
    digit, gives the signed value of the digits as year and \<open>getYearPosition\<close> of it as
    vertical position;
  \<^item> a number that is a non-zero integer \<open>k\<close> with \<open>|k| < 2^53\<close> gives the year \<open>k\<close> and
    the vertical position \<open>getYearPosition k\<close>;
  \<^item> a truthy \<open>start_year\<close> on which \<open>parseInt\<close> returns NaN gives the year NaN and the
    vertical position NaN, not \<open>null\<close>; this is the case of every non-empty string whose
    trimmed form is empty or starts with a character that is neither a digit nor a sign.
\<close>

theorem storyPoint_vertical_position:
  fixes k :: int
  shows
    "(\<not> truthy (row_start_year row) \<longrightarrow>
        pt_start_year (storyPoint f r1 r2 row) = JNull
        \<and> pt_y (storyPoint f r1 r2 row) = JNull)
     \<and> (truthy (row_start_year row) \<longrightarrow>
        pt_start_year (storyPoint f r1 r2 row)
          = JNum (parseInt10 (js_trim (String f (row_start_year row))))
        \<and> pt_y (storyPoint f r1 r2 row)
          = JNum (getYearPosition (parseInt10 (js_trim (String f (row_start_year row))))))
     \<and> (row_start_year row = JStr s \<and> js_trim s = sign @ ds @ rest
          \<and> sign \<in> {[], ''+'', ''-''} \<and> ds \<noteq> [] \<and> list_all is_digit ds
          \<and> takeWhile is_digit rest = [] \<and> digits_val ds < 2 ^ 53 \<longrightarrow>
        pt_start_year (storyPoint f r1 r2 row)
          = JNum (Fin (if sign = ''-'' then - real (digits_val ds) else real (digits_val ds)))
        \<and> pt_y (storyPoint f r1 r2 row)
          = JNum (getYearPosition
              (Fin (if sign = ''-'' then - real (digits_val ds) else real (digits_val ds)))))
     \<and> (row_start_year row = JNum (Fin (of_int k)) \<and> k \<noteq> 0 \<and> \<bar>k\<bar> < 2 ^ 53 \<longrightarrow>
        pt_start_year (storyPoint f r1 r2 row) = JNum (Fin (of_int k))
        \<and> pt_y (storyPoint f r1 r2 row) = JNum (getYearPosition (Fin (of_int k))))
     \<and> (truthy (row_start_year row)
          \<and> parseInt10 (js_trim (String f (row_start_year row))) = NaN \<longrightarrow>
        pt_start_year (storyPoint f r1 r2 row) = JNum NaN
        \<and> pt_y (storyPoint f r1 r2 row) = JNum NaN)
     \<and> (row_start_year row = JStr s \<and> s \<noteq> []
          \<and> (case js_trim s of [] \<Rightarrow> True | c # cs \<Rightarrow> \<not> is_digit c \<and> c \<notin> set ''+-'') \<longrightarrow>
        pt_start_year (storyPoint f r1 r2 row) = JNum NaN
        \<and> pt_y (storyPoint f r1 r2 row) = JNum NaN)"
proof (intro conjI impI)
  assume "\<not> truthy (row_start_year row)"
  then show "pt_start_year (storyPoint f r1 r2 row) = JNull"
    and "pt_y (storyPoint f r1 r2 row) = JNull"
    by (simp_all add: storyPoint_y storyPoint_year)
next
  assume "truthy (row_start_year row)"
  then show "pt_start_year (storyPoint f r1 r2 row)
      = JNum (parseInt10 (js_trim (String f (row_start_year row))))"
    and "pt_y (storyPoint f r1 r2 row)
      = JNum (getYearPosition (parseInt10 (js_trim (String f (row_start_year row)))))"
    by (simp_all add: storyPoint_y storyPoint_year)
next
  assume a: "row_start_year row = JStr s \<and> js_trim s = sign @ ds @ rest
    \<and> sign \<in> {[], ''+'', ''-''} \<and> ds \<noteq> [] \<and> list_all is_digit ds
    \<and> takeWhile is_digit rest = [] \<and> digits_val ds < 2 ^ 53"
  then have "js_trim s \<noteq> []" by simp
  then have ne: "s \<noteq> []" using js_trim_Nil by auto
  from a have p: "parseInt10 (js_trim s) =
      Fin (if sign = ''-'' then - real (digits_val ds) else real (digits_val ds))"
    using parseInt10_signed [of sign ds rest] by simp
  from a ne p show "pt_start_year (storyPoint f r1 r2 row)
      = JNum (Fin (if sign = ''-'' then - real (digits_val ds) else real (digits_val ds)))"
    by (simp add: storyPoint_year)
  from a ne p show "pt_y (storyPoint f r1 r2 row)
      = JNum (getYearPosition
          (Fin (if sign = ''-'' then - real (digits_val ds) else real (digits_val ds))))"
    by (simp add: storyPoint_y)
next
  assume a: "row_start_year row = JNum (Fin (of_int k)) \<and> k \<noteq> 0 \<and> \<bar>k\<bar> < 2 ^ 53"
  then have p: "parseInt10 (js_trim (int_toString k)) = Fin (of_int k)"
    using parseInt10_int_toString [of k "[]"] by (simp add: js_trim_int_toString)
  from a p show "pt_start_year (storyPoint f r1 r2 row) = JNum (Fin (of_int k))"
    by (simp add: storyPoint_year Number_toString_int)
  from a p show "pt_y (storyPoint f r1 r2 row) = JNum (getYearPosition (Fin (of_int k)))"
    by (simp add: storyPoint_y Number_toString_int)
next
  assume "truthy (row_start_year row)
    \<and> parseInt10 (js_trim (String f (row_start_year row))) = NaN"
  then show "pt_start_year (storyPoint f r1 r2 row) = JNum NaN"
    and "pt_y (storyPoint f r1 r2 row) = JNum NaN"
    by (simp_all add: storyPoint_y storyPoint_year getYearPosition_NaN)
next
  assume a: "row_start_year row = JStr s \<and> s \<noteq> []
    \<and> (case js_trim s of [] \<Rightarrow> True | c # cs \<Rightarrow> \<not> is_digit c \<and> c \<notin> set ''+-'')"
  then have p: "parseInt10 (js_trim s) = NaN"
    by (intro parseInt10_no_digit) simp
  from a p show "pt_start_year (storyPoint f r1 r2 row) = JNum NaN"
    by (simp add: storyPoint_year)
  from a p show "pt_y (storyPoint f r1 r2 row) = JNum NaN"
    by (simp add: storyPoint_y getYearPosition_NaN)
qed

lemmas parse_defs = parseInt10_def js_trim_def is_ws_def is_digit_def digits_val_def
  radix_val_def digit_val_def of_literal_def

theorem storyPoint_vertical_position_witness:
  "\<not> truthy (row_start_year (empty_row\<lparr>row_start_year := JNull\<rparr>))
     \<and> pt_start_year (storyPoint (\<lambda>r. []) 0 0 (empty_row\<lparr>row_start_year := JNull\<rparr>)) = JNull
     \<and> pt_y (storyPoint (\<lambda>r. []) 0 0 (empty_row\<lparr>row_start_year := JNull\<rparr>)) = JNull
     \<and> truthy (row_start_year (empty_row\<lparr>row_start_year := JStr ''1850 ''\<rparr>))
     \<and> js_trim ''1850 '' = [] @ ''1850'' @ [] \<and> list_all is_digit ''1850''
     \<and> digits_val ''1850'' = 1850 \<and> digits_val ''1850'' < 2 ^ 53
     \<and> pt_start_year (storyPoint (\<lambda>r. []) 0 0 (empty_row\<lparr>row_start_year := JStr ''1850 ''\<rparr>))
         = JNum (Fin 1850)
     \<and> pt_y (storyPoint (\<lambda>r. []) 0 0 (empty_row\<lparr>row_start_year := JStr ''1850 ''\<rparr>))
         = JNum (getYearPosition (Fin 1850))
     \<and> js_trim ''-44 BC'' = ''-'' @ ''44'' @ '' BC'' \<and> list_all is_digit ''44''
     \<and> takeWhile is_digit '' BC'' = [] \<and> digits_val ''44'' = 44
     \<and> pt_y (storyPoint (\<lambda>r. []) 0 0 (empty_row\<lparr>row_start_year := JStr ''-44 BC''\<rparr>))
         = JNum (getYearPosition (Fin (- 44)))
     \<and> (1850 :: int) \<noteq> 0 \<and> \<bar>1850 :: int\<bar> < 2 ^ 53
     \<and> pt_y (storyPoint (\<lambda>r. []) 0 0 (empty_row\<lparr>row_start_year := JNum (Fin 1850)\<rparr>))
         = JNum (getYearPosition (Fin 1850))
     \<and> truthy (row_start_year (empty_row\<lparr>row_start_year := JStr ''n/a''\<rparr>))
     \<and> parseInt10 (js_trim (String (\<lambda>r. []) (JStr ''n/a''))) = NaN
     \<and> js_trim ''n/a'' = ''n/a'' \<and> \<not> is_digit CHR ''n'' \<and> CHR ''n'' \<notin> set ''+-''
     \<and> pt_start_year (storyPoint (\<lambda>r. []) 0 0 (empty_row\<lparr>row_start_year := JStr ''n/a''\<rparr>))
         = JNum NaN
     \<and> pt_y (storyPoint (\<lambda>r. []) 0 0 (empty_row\<lparr>row_start_year := JStr ''n/a''\<rparr>))
         = JNum NaN"
proof -
  have t1: "js_trim ''1850 '' = [] @ ''1850'' @ []"
    and t2: "js_trim ''-44 BC'' = ''-'' @ ''44'' @ '' BC''"
    and t3: "js_trim ''n/a'' = ''n/a''"
    by (simp_all add: js_trim_def is_ws_def)
  have d: "list_all is_digit ''1850''" "list_all is_digit ''44''"
    "takeWhile is_digit '' BC'' = []" "\<not> is_digit CHR ''n''"
    by (simp_all add: is_digit_def)
  have v: "digits_val ''1850'' = 1850" "digits_val ''44'' = 44"
    by (simp_all add: digits_val_def radix_val_def digit_val_def)
  have n: "parseInt10 (js_trim (String (\<lambda>r. []) (JStr ''n/a''))) = NaN"
    by (simp add: parse_defs)
  note null = storyPoint_vertical_position [of "empty_row\<lparr>row_start_year := JNull\<rparr>"
      "\<lambda>r. []" 0 0 "[]" "[]" "[]" "[]" 0]
  note plain = storyPoint_vertical_position
      [of "empty_row\<lparr>row_start_year := JStr ''1850 ''\<rparr>"
        "\<lambda>r. []" 0 0 "''1850 ''" "[]" "''1850''" "[]" 0]
  note signed = storyPoint_vertical_position
      [of "empty_row\<lparr>row_start_year := JStr ''-44 BC''\<rparr>"
        "\<lambda>r. []" 0 0 "''-44 BC''" "''-''" "''44''" "'' BC''" 0]
  note number = storyPoint_vertical_position
      [of "empty_row\<lparr>row_start_year := JNum (Fin 1850)\<rparr>"
        "\<lambda>r. []" 0 0 "[]" "[]" "[]" "[]" 1850]
  note failing = storyPoint_vertical_position
      [of "empty_row\<lparr>row_start_year := JStr ''n/a''\<rparr>"
        "\<lambda>r. []" 0 0 "''n/a''" "[]" "[]" "[]" 0]
  have c1: "pt_start_year (storyPoint (\<lambda>r. []) 0 0 (empty_row\<lparr>row_start_year := JNull\<rparr>)) = JNull"
    "pt_y (storyPoint (\<lambda>r. []) 0 0 (empty_row\<lparr>row_start_year := JNull\<rparr>)) = JNull"
    using null by simp_all
  have "row_start_year (empty_row\<lparr>row_start_year := JStr ''1850 ''\<rparr>) = JStr ''1850 ''
      \<and> js_trim ''1850 '' = [] @ ''1850'' @ [] \<and> [] \<in> {[], ''+'', ''-''} \<and> ''1850'' \<noteq> []
      \<and> list_all is_digit ''1850'' \<and> takeWhile is_digit [] = []
      \<and> digits_val ''1850'' < 2 ^ 53"
    using t1 d v by simp
  with plain have "pt_start_year (storyPoint (\<lambda>r. []) 0 0 (empty_row\<lparr>row_start_year := JStr ''1850 ''\<rparr>))
        = JNum (Fin (if [] = ''-'' then - real (digits_val ''1850'') else real (digits_val ''1850'')))
      \<and> pt_y (storyPoint (\<lambda>r. []) 0 0 (empty_row\<lparr>row_start_year := JStr ''1850 ''\<rparr>))
        = JNum (getYearPosition
            (Fin (if [] = ''-'' then - real (digits_val ''1850'') else real (digits_val ''1850''))))"
    by blast
  then have c2: "pt_start_year (storyPoint (\<lambda>r. []) 0 0 (empty_row\<lparr>row_start_year := JStr ''1850 ''\<rparr>))
         = JNum (Fin 1850)"
    "pt_y (storyPoint (\<lambda>r. []) 0 0 (empty_row\<lparr>row_start_year := JStr ''1850 ''\<rparr>))
         = JNum (getYearPosition (Fin 1850))"
    by (simp_all add: v)
  have "row_start_year (empty_row\<lparr>row_start_year := JStr ''-44 BC''\<rparr>) = JStr ''-44 BC''
      \<and> js_trim ''-44 BC'' = ''-'' @ ''44'' @ '' BC'' \<and> ''-'' \<in> {[], ''+'', ''-''} \<and> ''44'' \<noteq> []
      \<and> list_all is_digit ''44'' \<and> takeWhile is_digit '' BC'' = []
      \<and> digits_val ''44'' < 2 ^ 53"
    using t2 d v by simp
  with signed have "pt_y (storyPoint (\<lambda>r. []) 0 0 (empty_row\<lparr>row_start_year := JStr ''-44 BC''\<rparr>))
        = JNum (getYearPosition
            (Fin (if ''-'' = ''-'' then - real (digits_val ''44'') else real (digits_val ''44''))))"
    by blast
  then have c3: "pt_y (storyPoint (\<lambda>r. []) 0 0 (empty_row\<lparr>row_start_year := JStr ''-44 BC''\<rparr>))
         = JNum (getYearPosition (Fin (- 44)))"
    by (simp add: v)
  have "row_start_year (empty_row\<lparr>row_start_year := JNum (Fin 1850)\<rparr>) = JNum (Fin (of_int 1850))
      \<and> (1850 :: int) \<noteq> 0 \<and> \<bar>1850 :: int\<bar> < 2 ^ 53"
    by simp
  with number have "pt_y (storyPoint (\<lambda>r. []) 0 0 (empty_row\<lparr>row_start_year := JNum (Fin 1850)\<rparr>))
         = JNum (getYearPosition (Fin (of_int 1850)))"
    by blast
  then have c4: "pt_y (storyPoint (\<lambda>r. []) 0 0 (empty_row\<lparr>row_start_year := JNum (Fin 1850)\<rparr>))
         = JNum (getYearPosition (Fin 1850))"
    by simp
  have "row_start_year (empty_row\<lparr>row_start_year := JStr ''n/a''\<rparr>) = JStr ''n/a'' \<and> ''n/a'' \<noteq> []
      \<and> (case js_trim ''n/a'' of [] \<Rightarrow> True | c # cs \<Rightarrow> \<not> is_digit c \<and> c \<notin> set ''+-'')"
    using t3 d by simp
  with failing have c5: "pt_start_year (storyPoint (\<lambda>r. []) 0 0 (empty_row\<lparr>row_start_year := JStr ''n/a''\<rparr>))
         = JNum NaN"
    "pt_y (storyPoint (\<lambda>r. []) 0 0 (empty_row\<lparr>row_start_year := JStr ''n/a''\<rparr>))
         = JNum NaN"
    by blast+
  show ?thesis
    using t1 t2 t3 d v n c1 c2 c3 c4 c5 by simp
qed

text \<open>
  Claim C2 as stated fails on the record whose \<open>start_year\<close> is the string "n/a":
  integer parsing fails, and the vertical position of the point is not \<open>null\<close>.
\<close>

theorem storyPoint_unparsable_year_counterexample:
  "row_start_year (empty_row\<lparr>row_start_year := JStr ''n/a''\<rparr>) = JStr ''n/a''
     \<and> parseInt10 (js_trim ''n/a'') = NaN
     \<and> pt_y (storyPoint (\<lambda>r. []) 0 0 (empty_row\<lparr>row_start_year := JStr ''n/a''\<rparr>))
         \<noteq> JNull"
  by (simp add: storyPoint_def Let_def parse_defs getYearPosition_def js_sub_def)

lemma storyPoint_numeric:
  assumes "(src, dst) \<in> set numeric_fields"
  shows "dst (storyPoint f r1 r2 row) = (if truthy (src row) then Number (src row) else Fin 0)"
  using assms by (auto simp: numeric_fields_def storyPoint_def Let_def)

lemma nondecimal_literal_signed_digits:
  assumes "sign \<in> {[], ''+'', ''-''}" "ds \<noteq> []" "list_all is_digit ds"
  shows "nondecimal_literal (sign @ ds) = None"
proof -
  from assms obtain z ps where ds: "ds = z # ps" by (cases ds) auto
  from assms(1) consider "sign = []" | "sign = ''+''" | "sign = ''-''" by auto
  then show ?thesis
  proof cases
    case 1
    show ?thesis
    proof (cases ps)
      case Nil
      with 1 ds show ?thesis by (simp add: nondecimal_literal_def)
    next
      case (Cons p qs)
      with ds assms(3) have "is_digit p" by simp
      then have "p \<notin> set ''xX''" "p \<notin> set ''oO''" "p \<notin> set ''bB''"
        by (auto simp: is_digit_def)
      with 1 ds Cons show ?thesis by (simp add: nondecimal_literal_def)
    qed
  next
    case 2
    with ds show ?thesis by (simp add: nondecimal_literal_def)
  next
    case 3
    with ds show ?thesis by (simp add: nondecimal_literal_def)
  qed
qed

lemma scan_decimal_signed_digits:
  assumes "sign \<in> {[], ''+'', ''-''}" "ds \<noteq> []" "list_all is_digit ds"
    "digits_val ds < 2 ^ 53"
  shows "scan_decimal (sign @ ds) =
    Some (Fin (if sign = ''-'' then - real (digits_val ds) else real (digits_val ds)), [])"
proof -
  have lit: "of_literal (real (digits_val ds)) = Fin (real (digits_val ds))"
    using assms(4) by (intro of_literal_small real_digits_bound)
  have u: "scan_unsigned ds = Some (Fin (real (digits_val ds)), [])"
    using assms(2,3) lit by (simp add: scan_unsigned_digits)
  from assms obtain z ps where ds: "ds = z # ps" and z: "is_digit z" by (cases ds) auto
  from assms(1) consider "sign = []" | "sign = ''+''" | "sign = ''-''" by auto
  then show ?thesis
  proof cases
    case 1
    have "scan_decimal ds = scan_unsigned ds"
      using is_digit_not_sign [OF z] by (simp add: scan_decimal_def ds)
    with 1 u show ?thesis by simp
  next
    case 2
    with u show ?thesis by (simp add: scan_decimal_def)
  next
    case 3
    with u show ?thesis by (simp add: scan_decimal_def)
  qed
qed

lemma StringToNumber_signed_digits:
  assumes "js_trim s = sign @ ds" "sign \<in> {[], ''+'', ''-''}" "ds \<noteq> []"
    "list_all is_digit ds" "digits_val ds < 2 ^ 53"
  shows "StringToNumber s =
    Fin (if sign = ''-'' then - real (digits_val ds) else real (digits_val ds))"
proof -
  have ne: "js_trim s \<noteq> []"
    unfolding assms(1) using assms(3) by simp
  have nd: "nondecimal_literal (js_trim s) = None"
    unfolding assms(1) by (rule nondecimal_literal_signed_digits [OF assms(2-4)])
  have sd: "scan_decimal (js_trim s) =
      Some (Fin (if sign = ''-'' then - real (digits_val ds) else real (digits_val ds)), [])"
    unfolding assms(1) by (rule scan_decimal_signed_digits [OF assms(2-5)])
  show ?thesis
    unfolding StringToNumber_def Let_def using ne nd sd by simp
qed

lemma StringToNumber_blank: "js_trim s = [] \<Longrightarrow> StringToNumber s = Fin 0"
  by (simp add: StringToNumber_def)

lemma StringToNumber_no_numeric_start:
  assumes "js_trim s = c # cs" "\<not> is_digit c" "c \<notin> set ''+-.I''"
  shows "StringToNumber s = NaN"
proof -
  from assms(2) have z: "c \<noteq> CHR ''0''" by (auto simp: is_digit_def)
  have nd: "nondecimal_literal (c # cs) = None"
    using z by (cases cs) (simp_all add: nondecimal_literal_def)
  have inf: "take 8 (c # cs) \<noteq> ''Infinity''"
    using assms(3) by auto
  have "scan_unsigned (c # cs) = None"
    using assms(2,3) inf by (simp add: scan_unsigned_def)
  then have "scan_decimal (c # cs) = None"
    using assms(3) by (simp add: scan_decimal_def)
  with nd assms(1) show ?thesis by (simp add: StringToNumber_def)
qed

text \<open>
  Claim C3, as amended. Each of the four numeric fields of the point is zero when the
  source value is falsy (absent, \<open>null\<close>, \<open>false\<close>, the empty string, the number 0 or
  NaN), and \<open>Number\<close> of the source value when that is truthy. In particular it is
  \<^item> the source value itself when that is a number other than NaN;
  \<^item> the signed value of the digits when the source is a string whose trimmed form is
    an optional sign \<open>+\<close> or \<open>-\<close> followed only by decimal digits, of value below
    \<open>2^53\<close>;
  \<^item> zero when the source is a non-empty string of white space only;
  \<^item> NaN, not zero, when the source is a non-empty string that \<open>Number\<close> converts to
    NaN; this is the case of every string whose trimmed form starts with a character
    that is neither a digit, a sign, a dot nor the letter I.
\<close>

theorem storyPoint_numeric_fields:
  assumes "(src, dst) \<in> set numeric_fields"
  shows
    "(\<not> truthy (src row) \<longrightarrow> dst (storyPoint f r1 r2 row) = Fin 0)
     \<and> (truthy (src row) \<longrightarrow> dst (storyPoint f r1 r2 row) = Number (src row))
     \<and> (src row = JNum n \<and> n \<noteq> NaN \<longrightarrow> dst (storyPoint f r1 r2 row) = n)
     \<and> (src row = JStr s \<and> js_trim s = sign @ ds \<and> sign \<in> {[], ''+'', ''-''}
          \<and> ds \<noteq> [] \<and> list_all is_digit ds \<and> digits_val ds < 2 ^ 53 \<longrightarrow>
        dst (storyPoint f r1 r2 row)
          = Fin (if sign = ''-'' then - real (digits_val ds) else real (digits_val ds)))
     \<and> (src row = JStr s \<and> s \<noteq> [] \<and> js_trim s = [] \<longrightarrow>
        dst (storyPoint f r1 r2 row) = Fin 0)
     \<and> (src row = JStr s \<and> s \<noteq> [] \<and> StringToNumber s = NaN \<longrightarrow>
        dst (storyPoint f r1 r2 row) = NaN)
     \<and> (src row = JStr s \<and> js_trim s = c # cs \<and> \<not> is_digit c \<and> c \<notin> set ''+-.I'' \<longrightarrow>
        dst (storyPoint f r1 r2 row) = NaN)"
proof (intro conjI impI)
  assume "\<not> truthy (src row)"
  then show "dst (storyPoint f r1 r2 row) = Fin 0"
    by (simp add: storyPoint_numeric [OF assms])
next
  assume "truthy (src row)"
  then show "dst (storyPoint f r1 r2 row) = Number (src row)"
    by (simp add: storyPoint_numeric [OF assms])
next
  assume "src row = JNum n \<and> n \<noteq> NaN"
  then show "dst (storyPoint f r1 r2 row) = n"
    by (simp add: storyPoint_numeric [OF assms])
next
  assume a: "src row = JStr s \<and> js_trim s = sign @ ds \<and> sign \<in> {[], ''+'', ''-''}
    \<and> ds \<noteq> [] \<and> list_all is_digit ds \<and> digits_val ds < 2 ^ 53"
  then have "js_trim s \<noteq> []" by simp
  then have ne: "s \<noteq> []" using js_trim_Nil by auto
  from a have "StringToNumber s =
      Fin (if sign = ''-'' then - real (digits_val ds) else real (digits_val ds))"
    by (intro StringToNumber_signed_digits) simp_all
  with a ne show "dst (storyPoint f r1 r2 row)
      = Fin (if sign = ''-'' then - real (digits_val ds) else real (digits_val ds))"
    by (simp add: storyPoint_numeric [OF assms])
next
  assume "src row = JStr s \<and> s \<noteq> [] \<and> js_trim s = []"
  then show "dst (storyPoint f r1 r2 row) = Fin 0"
    by (simp add: storyPoint_numeric [OF assms] StringToNumber_blank)
next
  assume "src row = JStr s \<and> s \<noteq> [] \<and> StringToNumber s = NaN"
  then show "dst (storyPoint f r1 r2 row) = NaN"
    by (simp add: storyPoint_numeric [OF assms])
next
  assume a: "src row = JStr s \<and> js_trim s = c # cs \<and> \<not> is_digit c \<and> c \<notin> set ''+-.I''"
  then have "js_trim s \<noteq> []" by simp
  then have ne: "s \<noteq> []" using js_trim_Nil by auto
  from a have "StringToNumber s = NaN"
    by (intro StringToNumber_no_numeric_start [of s c cs]) simp_all
  with a ne show "dst (storyPoint f r1 r2 row) = NaN"
    by (simp add: storyPoint_numeric [OF assms])
qed

lemmas number_defs = StringToNumber_def nondecimal_literal_def scan_decimal_def
  scan_unsigned_def scan_exponent_def scale10_def js_trim_def is_ws_def is_digit_def
  digits_val_def radix_val_def digit_val_def of_literal_def

theorem storyPoint_numeric_fields_witness:
  "(row_total_deaths, pt_total_deaths) \<in> set numeric_fields
     \<and> \<not> truthy (row_total_deaths empty_row)
     \<and> pt_total_deaths (storyPoint (\<lambda>r. []) 0 0 empty_row) = Fin 0
     \<and> truthy (row_total_deaths (empty_row\<lparr>row_total_deaths := JNum (Fin 12)\<rparr>))
     \<and> pt_total_deaths (storyPoint (\<lambda>r. []) 0 0 (empty_row\<lparr>row_total_deaths := JNum (Fin 12)\<rparr>))
         = Fin 12
     \<and> js_trim '' 340 '' = [] @ ''340'' \<and> list_all is_digit ''340''
     \<and> digits_val ''340'' = 340 \<and> digits_val ''340'' < 2 ^ 53
     \<and> pt_total_deaths (storyPoint (\<lambda>r. []) 0 0 (empty_row\<lparr>row_total_deaths := JStr '' 340 ''\<rparr>))
         = Fin 340
     \<and> js_trim ''  '' = []
     \<and> pt_total_deaths (storyPoint (\<lambda>r. []) 0 0 (empty_row\<lparr>row_total_deaths := JStr ''  ''\<rparr>))
         = Fin 0
     \<and> StringToNumber ''many'' = NaN
     \<and> js_trim ''many'' = CHR ''m'' # ''any'' \<and> \<not> is_digit CHR ''m''
     \<and> CHR ''m'' \<notin> set ''+-.I''
     \<and> pt_total_deaths (storyPoint (\<lambda>r. []) 0 0 (empty_row\<lparr>row_total_deaths := JStr ''many''\<rparr>))
         = NaN"
proof -
  have m: "(row_total_deaths, pt_total_deaths) \<in> set numeric_fields"
    by (simp add: numeric_fields_def)
  have t: "js_trim '' 340 '' = [] @ ''340''" "js_trim ''  '' = []"
    "js_trim ''many'' = CHR ''m'' # ''any''"
    by (simp_all add: js_trim_def is_ws_def)
  have d: "list_all is_digit ''340''" "\<not> is_digit CHR ''m''"
    by (simp_all add: is_digit_def)
  have v: "digits_val ''340'' = 340"
    by (simp add: digits_val_def radix_val_def digit_val_def)
  have n: "StringToNumber ''many'' = NaN"
    by (simp add: number_defs)
  have f: "\<not> truthy (row_total_deaths empty_row)"
    by (simp add: empty_row_def)
  note absent = storyPoint_numeric_fields [OF m, where row = empty_row and f = "\<lambda>r. []"
      and ?r1.0 = 0 and ?r2.0 = 0]
  note number = storyPoint_numeric_fields [OF m,
      where row = "empty_row\<lparr>row_total_deaths := JNum (Fin 12)\<rparr>" and f = "\<lambda>r. []"
      and ?r1.0 = 0 and ?r2.0 = 0 and n = "Fin 12"]
  note digits = storyPoint_numeric_fields [OF m,
      where row = "empty_row\<lparr>row_total_deaths := JStr '' 340 ''\<rparr>" and f = "\<lambda>r. []"
      and ?r1.0 = 0 and ?r2.0 = 0 and s = "'' 340 ''" and sign = "[]" and ds = "''340''"]
  note blank = storyPoint_numeric_fields [OF m,
      where row = "empty_row\<lparr>row_total_deaths := JStr ''  ''\<rparr>" and f = "\<lambda>r. []"
      and ?r1.0 = 0 and ?r2.0 = 0 and s = "''  ''"]
  note words = storyPoint_numeric_fields [OF m,
      where row = "empty_row\<lparr>row_total_deaths := JStr ''many''\<rparr>" and f = "\<lambda>r. []"
      and ?r1.0 = 0 and ?r2.0 = 0 and s = "''many''" and c = "CHR ''m''" and cs = "''any''"]
  have c1: "pt_total_deaths (storyPoint (\<lambda>r. []) 0 0 empty_row) = Fin 0"
    using absent f by blast
  have "row_total_deaths (empty_row\<lparr>row_total_deaths := JNum (Fin 12)\<rparr>) = JNum (Fin 12)
      \<and> Fin 12 \<noteq> NaN"
    by simp
  with number have c2: "pt_total_deaths
      (storyPoint (\<lambda>r. []) 0 0 (empty_row\<lparr>row_total_deaths := JNum (Fin 12)\<rparr>)) = Fin 12"
    by blast
  have "row_total_deaths (empty_row\<lparr>row_total_deaths := JStr '' 340 ''\<rparr>) = JStr '' 340 ''
      \<and> js_trim '' 340 '' = [] @ ''340'' \<and> [] \<in> {[], ''+'', ''-''} \<and> ''340'' \<noteq> []
      \<and> list_all is_digit ''340'' \<and> digits_val ''340'' < 2 ^ 53"
    using t d v by simp
  with digits have "pt_total_deaths
      (storyPoint (\<lambda>r. []) 0 0 (empty_row\<lparr>row_total_deaths := JStr '' 340 ''\<rparr>))
      = Fin (if [] = ''-'' then - real (digits_val ''340'') else real (digits_val ''340''))"
    by blast
  then have c3: "pt_total_deaths
      (storyPoint (\<lambda>r. []) 0 0 (empty_row\<lparr>row_total_deaths := JStr '' 340 ''\<rparr>)) = Fin 340"
    by (simp add: v)
  have "row_total_deaths (empty_row\<lparr>row_total_deaths := JStr ''  ''\<rparr>) = JStr ''  ''
      \<and> ''  '' \<noteq> [] \<and> js_trim ''  '' = []"
    using t by simp
  with blank have c4: "pt_total_deaths
      (storyPoint (\<lambda>r. []) 0 0 (empty_row\<lparr>row_total_deaths := JStr ''  ''\<rparr>)) = Fin 0"
    by blast
  have "row_total_deaths (empty_row\<lparr>row_total_deaths := JStr ''many''\<rparr>) = JStr ''many''
      \<and> js_trim ''many'' = CHR ''m'' # ''any'' \<and> \<not> is_digit CHR ''m''
      \<and> CHR ''m'' \<notin> set ''+-.I''"
    using t d by simp
  with words have c5: "pt_total_deaths
      (storyPoint (\<lambda>r. []) 0 0 (empty_row\<lparr>row_total_deaths := JStr ''many''\<rparr>)) = NaN"
    by blast
  show ?thesis
    using m t d v n f c1 c2 c3 c4 c5 by simp
qed

text \<open>
  Claim C3 as stated fails on the record whose \<open>total_deaths\<close> is the string "many":
  the source value is not numeric, and the field of the point is not zero.
\<close>

theorem storyPoint_non_numeric_field_counterexample:
  "row_total_deaths (empty_row\<lparr>row_total_deaths := JStr ''many''\<rparr>) = JStr ''many''
     \<and> StringToNumber ''many'' = NaN
     \<and> pt_total_deaths (storyPoint (\<lambda>r. []) 0 0 (empty_row\<lparr>row_total_deaths := JStr ''many''\<rparr>))
         \<noteq> Fin 0"
  by (simp add: storyPoint_def Let_def number_defs)


section \<open>Properties of the star loader\<close>

lemma Math_cos_cases: "Math_cos a = NaN \<or> is_finite (Math_cos a)"
  by (cases a) simp_all

lemma Math_sin_cases: "Math_sin a = NaN \<or> is_finite (Math_sin a)"
  by (cases a) simp_all

lemma js_mul_cases:
  assumes "a = NaN \<or> is_finite a" "b = NaN \<or> is_finite b"
  shows "js_mul a b = NaN \<or> is_finite (js_mul a b)"
  using assms by (cases a; cases b) simp_all

lemma radius_finite: "radius = NaN \<or> is_finite radius"
  by (simp add: radius_def)

lemma star_coordinates:
  "star_x (starOfRow ops r row i) = NaN \<or> is_finite (star_x (starOfRow ops r row i))"
  "star_y (starOfRow ops r row i) = NaN \<or> is_finite (star_y (starOfRow ops r row i))"
  "star_z (starOfRow ops r row i) = NaN \<or> is_finite (star_z (starOfRow ops r row i))"
  by (simp_all add: starOfRow_def Let_def js_mul_cases radius_finite Math_cos_cases
      Math_sin_cases)

lemma isNaN_iff_not_finite: "a = NaN \<or> is_finite a \<Longrightarrow> \<not> isNaN a \<longleftrightarrow> is_finite a"
  by (cases a) (simp_all add: isNaN_def)

lemma brightness_in_range:
  "js_le b (maxMagnitude starConfig) \<and> js_ge b (minMagnitude starConfig) \<longleftrightarrow>
     (case b of Fin r \<Rightarrow> - 1.5 \<le> r \<and> r \<le> 6.7 | _ \<Rightarrow> False)"
  by (cases b) (auto simp: js_le_def js_ge_def starConfig_def)

lemma keepStar_spec_retained:
  "keepStar (starOfRow ops r row i) = spec_retained (starOfRow ops r row i)"
  using brightness_in_range [of "star_brightness (starOfRow ops r row i)"]
  by (simp add: keepStar_def spec_retained_def isNaN_iff_not_finite star_coordinates)

lemma split_on_no_sep: "sep \<notin> set s \<Longrightarrow> split_on sep s = [s]"
  by (induction s) auto

lemma split_on_append:
  "sep \<notin> set a \<Longrightarrow> split_on sep (a @ sep # b) = a # split_on sep b"
  by (induction a) auto

lemma parseFloat_undefined: "parseFloat None = NaN"
  by (simp add: parseFloat_def parseFloat_str_def scan_decimal_def scan_unsigned_def
      is_ws_def is_digit_def)

lemma star_brightness_row:
  "star_brightness (starOfRow ops r row i) = parseFloat (element (split_on CHR '','' row) 5)"
  by (simp add: starOfRow_def Let_def)

lemma NaN_brightness_dropped:
  "star_brightness st = NaN \<Longrightarrow> \<not> keepStar st"
  by (simp add: keepStar_def js_le_def)

lemma NaN_right_ascension:
  assumes "parseFloat (element (split_on CHR '','' row) 8) = NaN"
  shows "star_x (starOfRow ops r row i) = NaN"
  using assms by (simp add: starOfRow_def Let_def radius_def)

lemmas float_defs = parseFloat_def parseFloat_str_def element_def scan_decimal_def
  scan_unsigned_def scan_exponent_def scale10_def is_ws_def is_digit_def digits_val_def
  radix_val_def digit_val_def of_literal_def

lemma parseFloat_str_no_numeric_start:
  assumes "case dropWhile is_ws fld of [] \<Rightarrow> True
           | c # cs \<Rightarrow> \<not> is_digit c \<and> c \<notin> set ''+-.I''"
  shows "parseFloat_str fld = NaN"
proof (cases "dropWhile is_ws fld")
  case Nil
  show ?thesis
    unfolding parseFloat_str_def Nil by (simp add: scan_decimal_def)
next
  case (Cons c cs)
  from assms have c: "\<not> is_digit c" "c \<notin> set ''+-.I''"
    unfolding Cons by simp_all
  have inf: "take 8 (c # cs) \<noteq> ''Infinity''"
    using c(2) by auto
  have "scan_unsigned (c # cs) = None"
    using c inf by (simp add: scan_unsigned_def)
  then have "scan_decimal (c # cs) = None"
    using c(2) by (simp add: scan_decimal_def)
  then show ?thesis
    unfolding parseFloat_str_def Cons by simp
qed

lemma parseFloat_no_number:
  assumes "case v of None \<Rightarrow> True
           | Some fld \<Rightarrow>
               (case dropWhile is_ws fld of [] \<Rightarrow> True
                | c # cs \<Rightarrow> \<not> is_digit c \<and> c \<notin> set ''+-.I'')"
  shows "parseFloat v = NaN"
proof (cases v)
  case None
  then show ?thesis by (simp add: parseFloat_undefined)
next
  case (Some fld)
  with assms show ?thesis
    by (simp add: parseFloat_def parseFloat_str_no_numeric_start)
qed


lemma numeric_prefix_rows_kept:
  "parseFloat (Some ''12h30m'') = Fin 12"
  "parseFloat (Some ''2.5x'') = Fin 2.5"
  "keepStar (starOfRow ops r ''4,,,,,3.1,,,12h30m,40,,0.1'' i)"
  "keepStar (starOfRow ops r ''2,,,,,2.5x,,,30,40,,0.1'' i)"
  by (simp_all add: keepStar_def starOfRow_def Let_def float_defs isNaN_def radius_def
      Math_PI_def js_le_def js_ge_def starConfig_def)

text \<open>
  Claim C4, as amended. The stars \<open>loadStars\<close> returns for a fetched text are exactly
  the records of the data rows (all rows after the first) whose three coordinates are
  finite and whose brightness lies in \<open>[-1.5, 6.7]\<close>, in the order of the rows, the
  fields being read by \<open>parseFloat\<close>. A row of brightness 7.0 is dropped. A row on
  whose right ascension \<open>parseFloat\<close> returns NaN is dropped: this is the case when the
  field is missing, or empty after its leading white space, or starts there with a
  character that is neither a digit, a sign, a dot nor the letter I. A file of a
  header, a row that passes the filter and a row on whose magnitude \<open>parseFloat\<close>
  returns NaN (the same cases), none of them with a line break inside, yields exactly
  one record, the one of the first data row. A field that only starts with a number is
  read as that number: "12h30m" as 12 and "2.5x" as 2.5, and the rows
  \<open>4,,,,,3.1,,,12h30m,40,,0.1\<close> and \<open>2,,,,,2.5x,,,30,40,,0.1\<close> pass the filter.
\<close>

theorem loadStars_retains_finite_in_range:
  "loadStars ops rand (Inr text) =
     filter spec_retained
       (map (\<lambda>(index, row). starOfRow ops (rand index) row index)
          (enumerate 0 (drop 1 (split_on CHR 0x0A text))))
   \<and> keepStar (starOfRow ops r row i) = spec_retained (starOfRow ops r row i)
   \<and> (star_brightness (starOfRow ops r row i) = Fin 7.0 \<longrightarrow>
        \<not> keepStar (starOfRow ops r row i))
   \<and> (parseFloat (element (split_on CHR '','' row) 8) = NaN \<longrightarrow>
        \<not> keepStar (starOfRow ops r row i))
   \<and> ((case element (split_on CHR '','' row) 8 of
          None \<Rightarrow> True
        | Some fld \<Rightarrow>
            (case dropWhile is_ws fld of
               [] \<Rightarrow> True
             | c # cs \<Rightarrow> \<not> is_digit c \<and> c \<notin> set ''+-.I'')) \<longrightarrow>
        \<not> keepStar (starOfRow ops r row i))
   \<and> (CHR 0x0A \<notin> set header \<and> CHR 0x0A \<notin> set row1 \<and> CHR 0x0A \<notin> set row2
        \<and> keepStar (starOfRow ops (rand 0) row1 0)
        \<and> parseFloat (element (split_on CHR '','' row2) 5) = NaN \<longrightarrow>
        loadStars ops rand (Inr (header @ CHR 0x0A # row1 @ CHR 0x0A # row2))
          = [starOfRow ops (rand 0) row1 0])
   \<and> (CHR 0x0A \<notin> set header \<and> CHR 0x0A \<notin> set row1 \<and> CHR 0x0A \<notin> set row2
        \<and> keepStar (starOfRow ops (rand 0) row1 0)
        \<and> (case element (split_on CHR '','' row2) 5 of
              None \<Rightarrow> True
            | Some fld \<Rightarrow>
                (case dropWhile is_ws fld of
                   [] \<Rightarrow> True
                 | c # cs \<Rightarrow> \<not> is_digit c \<and> c \<notin> set ''+-.I'')) \<longrightarrow>
        loadStars ops rand (Inr (header @ CHR 0x0A # row1 @ CHR 0x0A # row2))
          = [starOfRow ops (rand 0) row1 0])
   \<and> parseFloat (Some ''12h30m'') = Fin 12
   \<and> parseFloat (Some ''2.5x'') = Fin 2.5
   \<and> keepStar (starOfRow ops r ''4,,,,,3.1,,,12h30m,40,,0.1'' i)
   \<and> keepStar (starOfRow ops r ''2,,,,,2.5x,,,30,40,,0.1'' i)"
proof -
  have one: "loadStars ops rand (Inr (header @ CHR 0x0A # row1 @ CHR 0x0A # row2))
      = [starOfRow ops (rand 0) row1 0]"
    if nl: "CHR 0x0A \<notin> set header" "CHR 0x0A \<notin> set row1" "CHR 0x0A \<notin> set row2"
      and k: "keepStar (starOfRow ops (rand 0) row1 0)"
      and m: "parseFloat (element (split_on CHR '','' row2) 5) = NaN"
    for header row1 row2
  proof -
    have rows: "split_on CHR 0x0A (header @ CHR 0x0A # row1 @ CHR 0x0A # row2)
        = [header, row1, row2]"
      using nl by (simp add: split_on_append split_on_no_sep)
    from m have "\<not> keepStar (starOfRow ops (rand (Suc 0)) row2 (Suc 0))"
      by (intro NaN_brightness_dropped) (simp add: star_brightness_row)
    with k show ?thesis
      by (simp add: loadStars_def loadStars_try_def rows)
  qed
  have all: "filter keepStar (map (\<lambda>(index, row). starOfRow ops (rand index) row index) xs)
      = filter spec_retained (map (\<lambda>(index, row). starOfRow ops (rand index) row index) xs)"
    for xs :: "(nat \<times> string) list"
    by (induction xs) (auto simp: keepStar_spec_retained)
  have c1: "loadStars ops rand (Inr text) =
     filter spec_retained
       (map (\<lambda>(index, row). starOfRow ops (rand index) row index)
          (enumerate 0 (drop 1 (split_on CHR 0x0A text))))"
    using all by (simp add: loadStars_def loadStars_try_def)
  have c3: "\<not> keepStar (starOfRow ops r row i)"
    if "star_brightness (starOfRow ops r row i) = Fin 7.0"
    using that by (simp add: keepStar_def js_le_def starConfig_def)
  have c4: "\<not> keepStar (starOfRow ops r row i)"
    if "parseFloat (element (split_on CHR '','' row) 8) = NaN"
    using that by (simp add: keepStar_def isNaN_def NaN_right_ascension)
  show ?thesis
    using c1 c3 c4 one keepStar_spec_retained [of ops r row i]
      parseFloat_no_number [of "element (split_on CHR '','' row) 8"]
      parseFloat_no_number [of "element (split_on CHR '','' row2) 5"]
      numeric_prefix_rows_kept
    by blast
qed

theorem loadStars_retains_finite_in_range_witness:
  "CHR 0x0A \<notin> set ''id,a,b,c,d,Vmag,e,f,RAdeg,DEdeg,g,B-V''
   \<and> CHR 0x0A \<notin> set ''1,,,,,2.5,,,10.5,-20.25,,0.65''
   \<and> CHR 0x0A \<notin> set ''2,,,,,x.x,,,30,40,,0.1''
   \<and> keepStar (starOfRow \<lparr>newColor = \<lambda>h. h, multiplyScalar = \<lambda>c k. c, getHex = \<lambda>c. c\<rparr> 0 ''1,,,,,2.5,,,10.5,-20.25,,0.65'' 0)
   \<and> element (split_on CHR '','' ''2,,,,,x.x,,,30,40,,0.1'') 5 = Some ''x.x''
   \<and> dropWhile is_ws ''x.x'' = CHR ''x'' # ''.x''
   \<and> \<not> is_digit CHR ''x'' \<and> CHR ''x'' \<notin> set ''+-.I''
   \<and> parseFloat (element (split_on CHR '','' ''2,,,,,x.x,,,30,40,,0.1'') 5) = NaN
   \<and> length (loadStars \<lparr>newColor = \<lambda>h. h, multiplyScalar = \<lambda>c k. c, getHex = \<lambda>c. c\<rparr> (\<lambda>i. 0)
         (Inr (''id,a,b,c,d,Vmag,e,f,RAdeg,DEdeg,g,B-V'' @ CHR 0x0A #
               ''1,,,,,2.5,,,10.5,-20.25,,0.65'' @ CHR 0x0A # ''2,,,,,x.x,,,30,40,,0.1''))) = 1
   \<and> star_brightness (starOfRow \<lparr>newColor = \<lambda>h. h, multiplyScalar = \<lambda>c k. c, getHex = \<lambda>c. c\<rparr> 0 ''3,,,,,7.0,,,30,40,,0.1'' 2) = Fin 7.0
   \<and> \<not> keepStar (starOfRow \<lparr>newColor = \<lambda>h. h, multiplyScalar = \<lambda>c k. c, getHex = \<lambda>c. c\<rparr> 0 ''3,,,,,7.0,,,30,40,,0.1'' 2)
   \<and> element (split_on CHR '','' ''4,,,,,3.1,,,east,40,,0.1'') 8 = Some ''east''
   \<and> dropWhile is_ws ''east'' = CHR ''e'' # ''ast''
   \<and> \<not> is_digit CHR ''e'' \<and> CHR ''e'' \<notin> set ''+-.I''
   \<and> parseFloat (element (split_on CHR '','' ''4,,,,,3.1,,,east,40,,0.1'') 8) = NaN
   \<and> \<not> keepStar (starOfRow \<lparr>newColor = \<lambda>h. h, multiplyScalar = \<lambda>c k. c, getHex = \<lambda>c. c\<rparr> 0 ''4,,,,,3.1,,,east,40,,0.1'' 3)"
proof -
  let ?ops = "\<lparr>newColor = \<lambda>h::nat. h, multiplyScalar = \<lambda>(c::nat) k::jsnum. c, getHex = \<lambda>c::nat. c\<rparr>"
  let ?hdr = "''id,a,b,c,d,Vmag,e,f,RAdeg,DEdeg,g,B-V''"
  let ?row1 = "''1,,,,,2.5,,,10.5,-20.25,,0.65''"
  let ?row2 = "''2,,,,,x.x,,,30,40,,0.1''"
  let ?bright = "''3,,,,,7.0,,,30,40,,0.1''"
  let ?east = "''4,,,,,3.1,,,east,40,,0.1''"
  have n: "CHR 0x0A \<notin> set ?hdr" "CHR 0x0A \<notin> set ?row1" "CHR 0x0A \<notin> set ?row2"
    by simp_all
  have k: "keepStar (starOfRow ?ops 0 ?row1 0)"
    by (simp add: keepStar_def starOfRow_def Let_def float_defs isNaN_def radius_def
        Math_PI_def js_le_def js_ge_def starConfig_def)
  have e: "element (split_on CHR '','' ?row2) 5 = Some ''x.x''"
    "element (split_on CHR '','' ?east) 8 = Some ''east''"
    by (simp_all add: element_def)
  have w: "dropWhile is_ws ''x.x'' = CHR ''x'' # ''.x''"
    "dropWhile is_ws ''east'' = CHR ''e'' # ''ast''"
    by (simp_all add: is_ws_def)
  have d: "\<not> is_digit CHR ''x''" "CHR ''x'' \<notin> set ''+-.I''"
    "\<not> is_digit CHR ''e''" "CHR ''e'' \<notin> set ''+-.I''"
    by (simp_all add: is_digit_def)
  have m: "parseFloat (element (split_on CHR '','' ?row2) 5) = NaN"
    by (simp add: float_defs)
  have b: "star_brightness (starOfRow ?ops 0 ?bright 2) = Fin 7.0"
    by (simp add: starOfRow_def Let_def float_defs)
  have ra: "parseFloat (element (split_on CHR '','' ?east) 8) = NaN"
    by (simp add: float_defs)
  have cm: "case element (split_on CHR '','' ?row2) 5 of None \<Rightarrow> True
      | Some fld \<Rightarrow> (case dropWhile is_ws fld of [] \<Rightarrow> True
          | c # cs \<Rightarrow> \<not> is_digit c \<and> c \<notin> set ''+-.I'')"
    unfolding e using w d by simp
  have cra: "case element (split_on CHR '','' ?east) 8 of None \<Rightarrow> True
      | Some fld \<Rightarrow> (case dropWhile is_ws fld of [] \<Rightarrow> True
          | c # cs \<Rightarrow> \<not> is_digit c \<and> c \<notin> set ''+-.I'')"
    unfolding e using w d by simp
  note bright = loadStars_retains_finite_in_range [where ops = "?ops" and rand = "\<lambda>i. 0"
      and ?text = "[]" and r = 0 and row = "?bright" and i = 2 and header = "?hdr"
      and ?row1.0 = "?row1" and ?row2.0 = "?row2"]
  note ascension = loadStars_retains_finite_in_range [where ops = "?ops" and rand = "\<lambda>i. 0"
      and ?text = "[]" and r = 0 and row = "?east" and i = 3 and header = "?hdr"
      and ?row1.0 = "?row1" and ?row2.0 = "?row2"]
  have one: "loadStars ?ops (\<lambda>i. 0) (Inr (?hdr @ CHR 0x0A # ?row1 @ CHR 0x0A # ?row2))
      = [starOfRow ?ops 0 ?row1 0]"
    using bright n k m by blast
  have one': "loadStars ?ops (\<lambda>i. 0) (Inr (?hdr @ CHR 0x0A # ?row1 @ CHR 0x0A # ?row2))
      = [starOfRow ?ops 0 ?row1 0]"
    using ascension n k cm by blast
  have d7: "\<not> keepStar (starOfRow ?ops 0 ?bright 2)"
    using bright b by blast
  have dra: "\<not> keepStar (starOfRow ?ops 0 ?east 3)"
    using ascension ra by blast
  have dra': "\<not> keepStar (starOfRow ?ops 0 ?east 3)"
    using ascension cra by blast
  show ?thesis
    using n k e w d m b ra one one' d7 dra dra' by simp
qed

text \<open>
  Claim C4 as stated fails on fields that are not numbers but start with one: the row
  whose right ascension is "12h30m" passes the filter, and the file of a header, a
  valid row and a row whose magnitude field is "2.5x" yields two records.
\<close>

theorem loadStars_numeric_prefix_counterexample:
  "keepStar (starOfRow \<lparr>newColor = \<lambda>h. h, multiplyScalar = \<lambda>c k. c, getHex = \<lambda>c. c\<rparr> 0 ''4,,,,,3.1,,,12h30m,40,,0.1'' 0)
   \<and> length (loadStars \<lparr>newColor = \<lambda>h. h, multiplyScalar = \<lambda>c k. c, getHex = \<lambda>c. c\<rparr> (\<lambda>i. 0)
         (Inr (''id,a,b,c,d,Vmag,e,f,RAdeg,DEdeg,g,B-V'' @ CHR 0x0A #
               ''1,,,,,2.5,,,10.5,-20.25,,0.65'' @ CHR 0x0A # ''2,,,,,2.5x,,,30,40,,0.1''))) = 2"
  by (simp add: loadStars_def loadStars_try_def keepStar_def starOfRow_def Let_def
      float_defs isNaN_def radius_def Math_PI_def js_le_def js_ge_def starConfig_def)

lemma Math_max_Fin: "Math_max (Fin a) (Fin b) = Fin (max a b)"
  by (simp add: Math_max_def max_def)

lemma spec_unadjusted_size_Fin:
  "spec_unadjusted_size (Fin b) = Fin (max (3.0 * (1.1 - b / 6.7)) (16.9 * 0.75 powr b))"
  by (simp add: spec_unadjusted_size_def js_sub_def Math_max_Fin)

lemma star_size_row:
  "star_size (starOfRow ops r row i) =
     (if js_gt (star_brightness (starOfRow ops r row i)) (Fin 5.0)
      then js_mul (spec_unadjusted_size (star_brightness (starOfRow ops r row i))) (Fin 0.7)
      else spec_unadjusted_size (star_brightness (starOfRow ops r row i)))"
  by (simp add: starOfRow_def Let_def spec_unadjusted_size_def starConfig_def)

text \<open>
  Claim C8. The size of the record of every row is
  \<open>max(3.0 * (1.1 - brightness / 6.7), 16.9 * 0.75 ^ brightness)\<close>, multiplied by 0.7
  exactly when \<open>brightness > 5.0\<close>. Brightness 0 gives the size 16.9, and brightness
  5.5 gives the unadjusted value times 0.7.
\<close>

theorem star_size_formula:
  "star_size (starOfRow ops r row i) =
     (if js_gt (star_brightness (starOfRow ops r row i)) (Fin 5.0)
      then js_mul (spec_unadjusted_size (star_brightness (starOfRow ops r row i))) (Fin 0.7)
      else spec_unadjusted_size (star_brightness (starOfRow ops r row i)))
   \<and> (star_brightness (starOfRow ops r row i) = Fin 0 \<longrightarrow>
        star_size (starOfRow ops r row i) = Fin 16.9)
   \<and> (star_brightness (starOfRow ops r row i) = Fin 5.5 \<longrightarrow>
        star_size (starOfRow ops r row i)
          = Fin (max (3.0 * (1.1 - 5.5 / 6.7)) (16.9 * 0.75 powr 5.5) * 0.7))"
proof (intro conjI impI)
  show "star_size (starOfRow ops r row i) =
     (if js_gt (star_brightness (starOfRow ops r row i)) (Fin 5.0)
      then js_mul (spec_unadjusted_size (star_brightness (starOfRow ops r row i))) (Fin 0.7)
      else spec_unadjusted_size (star_brightness (starOfRow ops r row i)))"
    by (rule star_size_row)
next
  assume "star_brightness (starOfRow ops r row i) = Fin 0"
  then show "star_size (starOfRow ops r row i) = Fin 16.9"
    by (simp add: star_size_row spec_unadjusted_size_Fin js_gt_def)
next
  assume "star_brightness (starOfRow ops r row i) = Fin 5.5"
  then show "star_size (starOfRow ops r row i)
          = Fin (max (3.0 * (1.1 - 5.5 / 6.7)) (16.9 * 0.75 powr 5.5) * 0.7)"
    by (simp add: star_size_row spec_unadjusted_size_Fin js_gt_def)
qed

theorem star_size_formula_witness:
  "star_brightness (starOfRow \<lparr>newColor = \<lambda>h. h, multiplyScalar = \<lambda>c k. c, getHex = \<lambda>c. c\<rparr> 0
       ''5,,,,,0,,,10.5,-20.25,,0.65'' 0) = Fin 0
   \<and> star_size (starOfRow \<lparr>newColor = \<lambda>h. h, multiplyScalar = \<lambda>c k. c, getHex = \<lambda>c. c\<rparr> 0
       ''5,,,,,0,,,10.5,-20.25,,0.65'' 0) = Fin 16.9
   \<and> star_brightness (starOfRow \<lparr>newColor = \<lambda>h. h, multiplyScalar = \<lambda>c k. c, getHex = \<lambda>c. c\<rparr> 0
       ''6,,,,,5.5,,,10.5,-20.25,,0.65'' 4) = Fin 5.5
   \<and> star_size (starOfRow \<lparr>newColor = \<lambda>h. h, multiplyScalar = \<lambda>c k. c, getHex = \<lambda>c. c\<rparr> 0
       ''6,,,,,5.5,,,10.5,-20.25,,0.65'' 4)
       = Fin (max (3.0 * (1.1 - 5.5 / 6.7)) (16.9 * 0.75 powr 5.5) * 0.7)"
proof -
  let ?ops = "\<lparr>newColor = \<lambda>h::nat. h, multiplyScalar = \<lambda>(c::nat) k::jsnum. c, getHex = \<lambda>c::nat. c\<rparr>"
  have b0: "star_brightness (starOfRow ?ops 0 ''5,,,,,0,,,10.5,-20.25,,0.65'' 0) = Fin 0"
    by (simp add: starOfRow_def Let_def float_defs)
  have b5: "star_brightness (starOfRow ?ops 0 ''6,,,,,5.5,,,10.5,-20.25,,0.65'' 4) = Fin 5.5"
    by (simp add: starOfRow_def Let_def float_defs)
  show ?thesis
    using b0 b5
      star_size_formula [of ?ops 0 "''5,,,,,0,,,10.5,-20.25,,0.65''" 0]
      star_size_formula [of ?ops 0 "''6,,,,,5.5,,,10.5,-20.25,,0.65''" 4]
    by blast
qed

text \<open>
  Claim C10. The result of \<open>bvToColor\<close> does not depend on its argument \<open>bv\<close>: with
  the same brightness and the same random number, two colour indices give the same
  colour.
\<close>

theorem bvToColor_ignores_bv:
  "bvToColor ops rand bv brightness = bvToColor ops rand bv' brightness"
  by (simp add: bvToColor_def)


section \<open>Properties of the star globe component\<close>

text \<open>
  The state the effect leaves when the renderer cannot be created: nothing is
  registered with the browser and no call of \<open>onStarsLoaded\<close> was made.
\<close>

lemma failed_effect_state:
  "mount_children (effect False controls_ok cb initial_globe) = [FallbackDiv]"
  "loaded_calls (effect False controls_ok cb initial_globe) = 0"
  "\<not> load_pending (effect False controls_ok cb initial_globe)"
  "\<not> frame_requested (effect False controls_ok cb initial_globe)"
  "\<not> cleanup_registered (effect False controls_ok cb initial_globe)"
  "\<not> resize_listener (effect False controls_ok cb initial_globe)"
  by (simp_all add: effect_def initial_globe_def)

lemma step_nothing_registered:
  assumes "\<not> load_pending s" "\<not> frame_requested s" "\<not> cleanup_registered s"
    "\<not> resize_listener s"
  shows "\<not> load_pending (step ops rand cb ev s) \<and> \<not> frame_requested (step ops rand cb ev s)
    \<and> \<not> cleanup_registered (step ops rand cb ev s) \<and> \<not> resize_listener (step ops rand cb ev s)
    \<and> loaded_calls (step ops rand cb ev s) = loaded_calls s"
  using assms by (cases ev) simp_all

lemma run_nothing_registered:
  assumes "\<not> load_pending s" "\<not> frame_requested s" "\<not> cleanup_registered s"
    "\<not> resize_listener s"
  shows "loaded_calls (run ops rand cb evs s) = loaded_calls s"
  using assms
proof (induction evs arbitrary: s)
  case Nil
  then show ?case by simp
next
  case (Cons ev evs)
  from step_nothing_registered [OF Cons.prems, of ops rand cb ev]
  have "loaded_calls (run ops rand cb evs (step ops rand cb ev s))
      = loaded_calls (step ops rand cb ev s)"
    by (intro Cons.IH) simp_all
  with step_nothing_registered [OF Cons.prems, of ops rand cb ev]
  show ?case by simp
qed

text \<open>
  Claim C1, on the code. When the renderer cannot be created the effect appends the
  placeholder and returns before \<open>init\<close> is called: \<open>onStarsLoaded\<close> has not been
  called when the effect ends, and no later event calls it, since nothing is
  registered with the browser.
\<close>

theorem renderer_failure_never_signals_loaded:
  "mount_children (effect False controls_ok cb initial_globe) = [FallbackDiv]
   \<and> loaded_calls (effect False controls_ok cb initial_globe) = 0
   \<and> loaded_calls (run ops rand cb evs (effect False controls_ok cb initial_globe)) = 0"
proof -
  let ?s = "effect False controls_ok cb initial_globe"
  have "loaded_calls (run ops rand cb evs ?s) = loaded_calls ?s"
    by (rule run_nothing_registered) (simp_all add: failed_effect_state)
  then show ?thesis
    by (simp add: failed_effect_state)
qed

lemma loaded_calls_animate: "loaded_calls (animate s) = loaded_calls s"
  by (simp add: animate_def Let_def)

lemma loaded_calls_init_resume:
  "loaded_calls (init_resume True stars s) = loaded_calls s + 1"
  by (simp add: init_resume_def Let_def loaded_calls_animate call_onStarsLoaded_def
      createStarField_def)

lemma effect_ok_state:
  "load_pending (effect True controls_ok cb initial_globe)"
  "loaded_calls (effect True controls_ok cb initial_globe) = 0"
  by (simp_all add: effect_def initial_globe_def init_start_def Let_def)

text \<open>
  Claim C9. A request that fails makes \<open>loadStars\<close> return the empty list, and the
  part of \<open>init\<close> after the \<open>await\<close> calls \<open>onStarsLoaded\<close> exactly once whatever
  \<open>loadStars\<close> returned (stars, no star, or the empty list of a failure): after a
  successful setup and the settling of the request it has been called once.
\<close>

theorem loaded_signalled_in_every_load_outcome:
  "loadStars ops rand (Inl error) = []
   \<and> loaded_calls (init_resume True (loadStars ops rand outcome) s) = loaded_calls s + 1
   \<and> loaded_calls (init_resume True [] s) = loaded_calls s + 1
   \<and> loaded_calls
        (run ops rand True [LoadSettled outcome] (effect True controls_ok True initial_globe)) = 1"
  by (simp add: loaded_calls_init_resume effect_ok_state)
     (simp add: loadStars_def loadStars_try_def)

lemma cleanup_fields:
  "resize_listener (cleanup s) = False"
  "mount_children (cleanup s) =
     (if mountRef s \<and> rendererRef s then remove1 Canvas (mount_children s) else mount_children s)"
  "renderer_disposed (cleanup s) = (rendererRef s \<or> renderer_disposed s)"
  "controls_disposed (cleanup s) = (controlsRef s \<or> controls_disposed s)"
  "rendererRef (cleanup s) = rendererRef s"
  "controlsRef (cleanup s) = controlsRef s"
  "sceneRef (cleanup s) = sceneRef s"
  "cameraRef (cleanup s) = cameraRef s"
  "starPointsRef (cleanup s) = starPointsRef s"
  "frame_requested (cleanup s) = frame_requested s"
  "render_calls (cleanup s) = render_calls s"
  by (simp_all add: cleanup_def Let_def)

lemma animate_fields:
  "frame_requested (animate s)"
  "rendererRef (animate s) = rendererRef s"
  "controlsRef (animate s) = controlsRef s"
  "sceneRef (animate s) = sceneRef s"
  "cameraRef (animate s) = cameraRef s"
  "render_calls (animate s) =
     (if rendererRef s \<and> sceneRef s \<and> cameraRef s then render_calls s + 1 else render_calls s)"
  by (simp_all add: animate_def Let_def)

lemma frames_continue:
  assumes "frame_requested s" "rendererRef s" "sceneRef s" "cameraRef s"
  shows "frame_requested (run ops rand cb (replicate n Frame) s)
    \<and> render_calls (run ops rand cb (replicate n Frame) s) = render_calls s + n"
  using assms
proof (induction n arbitrary: s)
  case 0
  then show ?case by simp
next
  case (Suc n)
  let ?t = "step ops rand cb Frame s"
  have "frame_requested (run ops rand cb (replicate n Frame) ?t)
    \<and> render_calls (run ops rand cb (replicate n Frame) ?t) = render_calls ?t + n"
    using Suc.prems by (intro Suc.IH) (simp_all add: animate_fields)
  with Suc.prems show ?case by (simp add: animate_fields)
qed

text \<open>
  Claim C5, as amended. The cleanup function removes the resize listener, detaches the
  canvas of the renderer when the mount ref is still set, and calls \<open>dispose\<close> on the
  renderer and on the controls when they exist. It clears no ref and cancels no
  requested frame: the renderer, the controls and the point cloud stay in their refs,
  and every frame that fires renders and requests the next one.
\<close>

theorem cleanup_disposes_but_frames_continue:
  "\<not> resize_listener (cleanup s)
   \<and> (mountRef s \<and> rendererRef s \<longrightarrow>
        mount_children (cleanup s) = remove1 Canvas (mount_children s))
   \<and> (rendererRef s \<longrightarrow> renderer_disposed (cleanup s))
   \<and> (controlsRef s \<longrightarrow> controls_disposed (cleanup s))
   \<and> rendererRef (cleanup s) = rendererRef s
   \<and> controlsRef (cleanup s) = controlsRef s
   \<and> starPointsRef (cleanup s) = starPointsRef s
   \<and> frame_requested (cleanup s) = frame_requested s
   \<and> (frame_requested s \<and> rendererRef s \<and> sceneRef s \<and> cameraRef s \<longrightarrow>
        frame_requested (run ops rand cb (replicate n Frame) (cleanup s))
        \<and> render_calls (run ops rand cb (replicate n Frame) (cleanup s)) = render_calls s + n)"
  using frames_continue [of "cleanup s" ops rand cb n]
  by (simp add: cleanup_fields)


theorem cleanup_disposes_but_frames_continue_witness:
  "mountRef (init_resume True [] (effect True True True initial_globe))
   \<and> rendererRef (init_resume True [] (effect True True True initial_globe))
   \<and> controlsRef (init_resume True [] (effect True True True initial_globe))
   \<and> sceneRef (init_resume True [] (effect True True True initial_globe))
   \<and> cameraRef (init_resume True [] (effect True True True initial_globe))
   \<and> frame_requested (init_resume True [] (effect True True True initial_globe))
   \<and> mount_children (cleanup (init_resume True [] (effect True True True initial_globe))) = []
   \<and> renderer_disposed (cleanup (init_resume True [] (effect True True True initial_globe)))
   \<and> controls_disposed (cleanup (init_resume True [] (effect True True True initial_globe)))
   \<and> rendererRef (cleanup (init_resume True [] (effect True True True initial_globe)))
   \<and> frame_requested
        (run \<lparr>newColor = \<lambda>h. h, multiplyScalar = \<lambda>c k. c, getHex = \<lambda>c. c\<rparr> (\<lambda>i. 0) True
           (replicate 3 Frame) (cleanup (init_resume True [] (effect True True True initial_globe))))
   \<and> render_calls
        (run \<lparr>newColor = \<lambda>h. h, multiplyScalar = \<lambda>c k. c, getHex = \<lambda>c. c\<rparr> (\<lambda>i. 0) True
           (replicate 3 Frame) (cleanup (init_resume True [] (effect True True True initial_globe))))
       = 4"
proof -
  let ?s = "init_resume True [] (effect True True True initial_globe)"
  have s: "mountRef ?s" "rendererRef ?s" "controlsRef ?s" "sceneRef ?s" "cameraRef ?s"
    "frame_requested ?s" "mount_children ?s = [Canvas]" "render_calls ?s = 1"
    by (simp_all add: init_resume_def effect_def init_start_def initial_globe_def
        call_onStarsLoaded_def animate_def Let_def)
  show ?thesis
    using s cleanup_disposes_but_frames_continue [of ?s
        "\<lparr>newColor = \<lambda>h::nat. h, multiplyScalar = \<lambda>(c::nat) k::jsnum. c, getHex = \<lambda>c::nat. c\<rparr>"
        "\<lambda>i. 0" True 3]
    by simp
qed

text \<open>
  Claim C5 as stated fails on an instance that was set up, loaded one star and was
  unmounted: the frame requested before the unmount fires afterwards, renders and
  requests a further frame, and the refs still hold the renderer, the controls and the
  point cloud.
\<close>

theorem frames_fire_after_unmount_counterexample:
  "render_calls
     (run \<lparr>newColor = \<lambda>h. h, multiplyScalar = \<lambda>c k. c, getHex = \<lambda>c. c\<rparr> (\<lambda>i. 0) True
        [LoadSettled (Inr (''h'' @ CHR 0x0A # ''1,,,,,2.5,,,10.5,-20.25,,0.65'')), Unmount]
        (effect True True True initial_globe)) = 1
   \<and> render_calls
     (run \<lparr>newColor = \<lambda>h. h, multiplyScalar = \<lambda>c k. c, getHex = \<lambda>c. c\<rparr> (\<lambda>i. 0) True
        [LoadSettled (Inr (''h'' @ CHR 0x0A # ''1,,,,,2.5,,,10.5,-20.25,,0.65'')), Unmount, Frame]
        (effect True True True initial_globe)) = 2
   \<and> frame_requested
     (run \<lparr>newColor = \<lambda>h. h, multiplyScalar = \<lambda>c k. c, getHex = \<lambda>c. c\<rparr> (\<lambda>i. 0) True
        [LoadSettled (Inr (''h'' @ CHR 0x0A # ''1,,,,,2.5,,,10.5,-20.25,,0.65'')), Unmount, Frame]
        (effect True True True initial_globe))
   \<and> rendererRef
     (run \<lparr>newColor = \<lambda>h. h, multiplyScalar = \<lambda>c k. c, getHex = \<lambda>c. c\<rparr> (\<lambda>i. 0) True
        [LoadSettled (Inr (''h'' @ CHR 0x0A # ''1,,,,,2.5,,,10.5,-20.25,,0.65'')), Unmount]
        (effect True True True initial_globe))
   \<and> controlsRef
     (run \<lparr>newColor = \<lambda>h. h, multiplyScalar = \<lambda>c k. c, getHex = \<lambda>c. c\<rparr> (\<lambda>i. 0) True
        [LoadSettled (Inr (''h'' @ CHR 0x0A # ''1,,,,,2.5,,,10.5,-20.25,,0.65'')), Unmount]
        (effect True True True initial_globe))
   \<and> starPointsRef
     (run \<lparr>newColor = \<lambda>h. h, multiplyScalar = \<lambda>c k. c, getHex = \<lambda>c. c\<rparr> (\<lambda>i. 0) True
        [LoadSettled (Inr (''h'' @ CHR 0x0A # ''1,,,,,2.5,,,10.5,-20.25,,0.65'')), Unmount]
        (effect True True True initial_globe)) = Some 1"
proof -
  let ?ops = "\<lparr>newColor = \<lambda>h::nat. h, multiplyScalar = \<lambda>(c::nat) k::jsnum. c, getHex = \<lambda>c::nat. c\<rparr>"
  have k: "keepStar (starOfRow ?ops 0 ''1,,,,,2.5,,,10.5,-20.25,,0.65'' 0)"
    by (simp add: keepStar_def starOfRow_def Let_def float_defs isNaN_def radius_def
        Math_PI_def js_le_def js_ge_def starConfig_def)
  have l: "length (loadStars ?ops (\<lambda>i. 0)
      (Inr (''h'' @ CHR 0x0A # ''1,,,,,2.5,,,10.5,-20.25,,0.65''))) = 1"
    using k by (simp add: loadStars_def loadStars_try_def)
  have p: "load_pending (effect True True True initial_globe)"
    by (simp add: effect_def init_start_def initial_globe_def)
  show ?thesis
    using l p
    by (simp add: init_resume_def effect_def init_start_def initial_globe_def
        call_onStarsLoaded_def createStarField_def animate_def cleanup_def Let_def)
qed

end
